theory Spec2Isabelle
  imports Complex_Main "HOL-Library.AList"
begin

section \<open>Python values, errors and built-ins\<close>

text \<open>
  The add-on is Python running inside Blender. Values that travel through custom
  properties and through the JSON documents are modelled by one datatype; a dictionary is
  an association list in insertion order, as a Python 3 dict is.
\<close>

datatype pyval =
    PNone
  | PBool bool
  | PInt int
  | PFloat real
  | PStr string
  | PList "pyval list"
  | PDict "(string \<times> pyval) list"

type_synonym dict = "(string \<times> pyval) list"

text \<open>Every exception the modelled code can raise is a value.\<close>

datatype error =
    KeyError string
  | ValueError string
  | TypeError string
  | IndexError string
  | AttributeError string
  | UnboundLocalError string
  | ReferenceError string
  | OverflowError string

definition bind :: "error + 'a \<Rightarrow> ('a \<Rightarrow> error + 'b) \<Rightarrow> error + 'b" where
  "bind m f = (case m of Inl e \<Rightarrow> Inl e | Inr x \<Rightarrow> f x)"

text \<open>\<open>d[k]\<close>, \<open>k in d\<close>, \<open>d.get(k, default)\<close> and \<open>d[k] = v\<close>.\<close>

definition getitem :: "dict \<Rightarrow> string \<Rightarrow> error + pyval" where
  "getitem d k = (case map_of d k of None \<Rightarrow> Inl (KeyError k) | Some v \<Rightarrow> Inr v)"

definition has_key :: "dict \<Rightarrow> string \<Rightarrow> bool" where
  "has_key d k = (map_of d k \<noteq> None)"

definition get_default :: "dict \<Rightarrow> string \<Rightarrow> pyval \<Rightarrow> pyval" where
  "get_default d k dflt = (case map_of d k of None \<Rightarrow> dflt | Some v \<Rightarrow> v)"

definition setitem :: "dict \<Rightarrow> string \<Rightarrow> pyval \<Rightarrow> dict" where
  "setitem d k v = AList.update k v d"

subsection \<open>\<open>int(...)\<close> and \<open>str(...)\<close>\<close>

text \<open>
  A character is a code point below 256. \<open>str.strip()\<close> removes the characters for which
  \<open>str.isspace\<close> holds. \<open>int\<close> skips less around a literal: the six ASCII blanks, and the
  two blanks above 127 (it rewrites them to a space first); the separators 28 to 31 are
  not skipped.
\<close>

definition is_space :: "char \<Rightarrow> bool" where
  "is_space c = (of_char c \<in> {9, 10, 11, 12, 13, 28, 29, 30, 31, 32, 133, 160 :: nat})"

definition int_space :: "char \<Rightarrow> bool" where
  "int_space c = (of_char c \<in> {9, 10, 11, 12, 13, 32, 133, 160 :: nat})"

definition is_digit :: "char \<Rightarrow> bool" where
  "is_digit c = (48 \<le> (of_char c :: nat) \<and> (of_char c :: nat) \<le> 57)"

definition digit_val :: "char \<Rightarrow> nat" where
  "digit_val c = of_char c - 48"

definition strip :: "string \<Rightarrow> string" where
  "strip s = rev (dropWhile is_space (rev (dropWhile is_space s)))"

text \<open>
  The digits of a decimal literal after its first digit: further digits, each optionally
  preceded by a single underscore.
\<close>

fun more_digits :: "string \<Rightarrow> nat \<Rightarrow> nat option" where
  "more_digits [] acc = Some acc"
| "more_digits [c] acc = (if is_digit c then Some (acc * 10 + digit_val c) else None)"
| "more_digits (c # d # ds) acc =
     (if is_digit c then more_digits (d # ds) (acc * 10 + digit_val c)
      else if c = CHR ''_'' \<and> is_digit d then more_digits ds (acc * 10 + digit_val d)
      else None)"

text \<open>
  A decimal literal without sign. Python refuses one of more than 4300 digits (the default
  limit of its current versions), also with \<open>ValueError\<close>.
\<close>

definition unsigned_literal :: "string \<Rightarrow> nat option" where
  "unsigned_literal s =
     (if 4300 < length (filter is_digit s) then None
      else
        (case s of [] \<Rightarrow> None
         | c # cs \<Rightarrow> if is_digit c then more_digits cs (digit_val c) else None))"

text \<open>\<open>int(s)\<close> for a string: \<open>None\<close> stands for the \<open>ValueError\<close>.\<close>

definition int_of_str :: "string \<Rightarrow> int option" where
  "int_of_str s =
     (case rev (dropWhile int_space (rev (dropWhile int_space s))) of [] \<Rightarrow> None
      | c # cs \<Rightarrow>
          if c = CHR ''-'' then map_option (\<lambda>n. - int n) (unsigned_literal cs)
          else if c = CHR ''+'' then map_option int (unsigned_literal cs)
          else map_option int (unsigned_literal (c # cs)))"

definition truncate :: "real \<Rightarrow> int" where
  "truncate r = (if 0 \<le> r then \<lfloor>r\<rfloor> else \<lceil>r\<rceil>)"

fun py_int :: "pyval \<Rightarrow> error + int" where
  "py_int (PInt i) = Inr i"
| "py_int (PBool b) = Inr (if b then 1 else 0)"
| "py_int (PFloat r) = Inr (truncate r)"
| "py_int (PStr s) =
     (case int_of_str s of None \<Rightarrow> Inl (ValueError s) | Some i \<Rightarrow> Inr i)"
| "py_int v = Inl (TypeError ''int'')"

fun decimal :: "nat \<Rightarrow> string" where
  "decimal n =
     (if n < 10 then [char_of (48 + n)]
      else decimal (n div 10) @ [char_of (48 + n mod 10)])"

declare decimal.simps [simp del]

definition str_of_int :: "int \<Rightarrow> string" where
  "str_of_int i = (if i < 0 then CHR ''-'' # decimal (nat (- i)) else decimal (nat i))"

text \<open>
  \<open>str(v)\<close>. The text Python prints for a float, a list or a dict is not modelled here;
  it is the parameter \<open>other\<close>.
\<close>

fun py_str :: "(pyval \<Rightarrow> string) \<Rightarrow> pyval \<Rightarrow> string" where
  "py_str other (PStr s) = s"
| "py_str other (PInt i) = str_of_int i"
| "py_str other (PBool b) = (if b then ''True'' else ''False'')"
| "py_str other PNone = ''None''"
| "py_str other v = other v"

section \<open>Transforms\<close>

text \<open>
  A \<open>mathutils.Matrix\<close> of size 4 is four rows of four numbers. Floating-point numbers are
  idealised as reals; rounding is outside this development.
\<close>

datatype vec4 = Vec4 real real real real

datatype mat4 = Mat4 vec4 vec4 vec4 vec4

type_synonym vec3 = "real \<times> real \<times> real"

fun dot4 :: "vec4 \<Rightarrow> vec4 \<Rightarrow> real" where
  "dot4 (Vec4 a b c d) (Vec4 x y z w) = a * x + b * y + c * z + d * w"

fun columns :: "mat4 \<Rightarrow> vec4 \<times> vec4 \<times> vec4 \<times> vec4" where
  "columns (Mat4 (Vec4 a0 a1 a2 a3) (Vec4 b0 b1 b2 b3) (Vec4 c0 c1 c2 c3) (Vec4 d0 d1 d2 d3)) =
     (Vec4 a0 b0 c0 d0, Vec4 a1 b1 c1 d1, Vec4 a2 b2 c2 d2, Vec4 a3 b3 c3 d3)"

definition row_times :: "vec4 \<Rightarrow> mat4 \<Rightarrow> vec4" where
  "row_times r B =
     (case columns B of (c0, c1, c2, c3) \<Rightarrow> Vec4 (dot4 r c0) (dot4 r c1) (dot4 r c2) (dot4 r c3))"

fun mat_mul :: "mat4 \<Rightarrow> mat4 \<Rightarrow> mat4" where
  "mat_mul (Mat4 r0 r1 r2 r3) B =
     Mat4 (row_times r0 B) (row_times r1 B) (row_times r2 B) (row_times r3 B)"

definition identity4 :: mat4 where
  "identity4 = Mat4 (Vec4 1 0 0 0) (Vec4 0 1 0 0) (Vec4 0 0 1 0) (Vec4 0 0 0 1)"

definition radians :: "real \<Rightarrow> real" where
  "radians d = d * pi / 180"

datatype axis = X | Y | Z

text \<open>\<open>mathutils.Matrix.Rotation(angle, 4, axis)\<close>.\<close>

fun Rotation :: "real \<Rightarrow> axis \<Rightarrow> mat4" where
  "Rotation a X =
     Mat4 (Vec4 1 0 0 0) (Vec4 0 (cos a) (- sin a) 0) (Vec4 0 (sin a) (cos a) 0) (Vec4 0 0 0 1)"
| "Rotation a Y =
     Mat4 (Vec4 (cos a) 0 (sin a) 0) (Vec4 0 1 0 0) (Vec4 (- sin a) 0 (cos a) 0) (Vec4 0 0 0 1)"
| "Rotation a Z =
     Mat4 (Vec4 (cos a) (- sin a) 0 0) (Vec4 (sin a) (cos a) 0 0) (Vec4 0 0 1 0) (Vec4 0 0 0 1)"

text \<open>\<open>m.decompose()[0]\<close>: the translation part of a transform.\<close>

fun translation :: "mat4 \<Rightarrow> vec3" where
  "translation (Mat4 (Vec4 a0 a1 a2 a3) (Vec4 b0 b1 b2 b3) (Vec4 c0 c1 c2 c3) r3) = (a3, b3, c3)"

text \<open>The basis vector of an axis: the column of the transform for that axis.\<close>

fun basis_column :: "axis \<Rightarrow> mat4 \<Rightarrow> vec3" where
  "basis_column X (Mat4 (Vec4 a0 a1 a2 a3) (Vec4 b0 b1 b2 b3) (Vec4 c0 c1 c2 c3) r3) = (a0, b0, c0)"
| "basis_column Y (Mat4 (Vec4 a0 a1 a2 a3) (Vec4 b0 b1 b2 b3) (Vec4 c0 c1 c2 c3) r3) = (a1, b1, c1)"
| "basis_column Z (Mat4 (Vec4 a0 a1 a2 a3) (Vec4 b0 b1 b2 b3) (Vec4 c0 c1 c2 c3) r3) = (a2, b2, c2)"

fun translated :: "vec3 \<Rightarrow> mat4" where
  "translated (x, y, z) = Mat4 (Vec4 1 0 0 x) (Vec4 0 1 0 y) (Vec4 0 0 1 z) (Vec4 0 0 0 1)"

fun vec_list :: "vec3 \<Rightarrow> pyval" where
  "vec_list (x, y, z) = PList [PFloat x, PFloat y, PFloat z]"

section \<open>The scene\<close>

text \<open>
  What the code reads and writes of a Blender object. \<open>props\<close> are the custom properties
  (\<open>ob["key"]\<close>), which behave as a dictionary. \<open>hide\<close> is the viewport visibility flag
  (\<open>hide\<close> in \<open>parts.py\<close>, \<open>hide_viewport\<close> in \<open>__init__.py\<close>); \<open>select\<close> is the selection
  state (\<open>select\<close>, \<open>select_set\<close>). \<open>bpy.data.objects\<close> is the list of objects, and an
  object reference is its position in that list. A name is kept as it is assigned; the
  renaming by which Blender keeps names distinct is not modelled. \<open>made_by\<close> records which
  operator created the object, \<open>data_attrs\<close> the attributes set on the data of a light.
\<close>

datatype origin = Imported string | Cube | Lamp string | Foreign

record object =
  name :: string
  props :: dict
  matrix_world :: mat4
  lock_location :: "bool \<times> bool \<times> bool"
  lock_rotation :: "bool \<times> bool \<times> bool"
  lock_scale :: "bool \<times> bool \<times> bool"
  select :: bool
  hide :: bool
  hide_select :: bool
  parent :: "nat option"
  material :: "(string \<times> pyval) option"
  made_by :: origin
  data_attrs :: dict

type_synonym scene = "object list"

definition fresh_object :: "origin \<Rightarrow> string \<Rightarrow> mat4 \<Rightarrow> object" where
  "fresh_object how nm m =
     \<lparr> name = nm, props = [], matrix_world = m,
       lock_location = (False, False, False), lock_rotation = (False, False, False),
       lock_scale = (False, False, False),
       select = True, hide = False, hide_select = False, parent = None, material = None,
       made_by = how, data_attrs = [] \<rparr>"

text \<open>
  An operator that adds an object (\<open>import_scene.obj\<close>, \<open>primitive_cube_add\<close>,
  \<open>lamp_add\<close>) leaves the new object as the only selected one and as the context object.
  The result is the new scene and the reference of the new object.
\<close>

definition add_object :: "object \<Rightarrow> scene \<Rightarrow> scene \<times> nat" where
  "add_object ob sc = (map (\<lambda>x. x\<lparr>select := False\<rparr>) sc @ [ob\<lparr>select := True\<rparr>], length sc)"

definition modify :: "nat \<Rightarrow> (object \<Rightarrow> object) \<Rightarrow> scene \<Rightarrow> scene" where
  "modify i f sc = (if i < length sc then sc[i := f (sc ! i)] else sc)"

definition modify_res :: "nat \<Rightarrow> (object \<Rightarrow> error + object) \<Rightarrow> scene \<Rightarrow> error + scene" where
  "modify_res i f sc =
     (if i < length sc then bind (f (sc ! i)) (\<lambda>x. Inr (sc[i := x])) else Inr sc)"

definition set_prop :: "string \<Rightarrow> pyval \<Rightarrow> object \<Rightarrow> object" where
  "set_prop k v ob = ob\<lparr>props := setitem (props ob) k v\<rparr>"

text \<open>
  An integer custom property is a 32-bit integer: assigning an integer outside that range
  raises \<open>OverflowError\<close> and stores nothing.
\<close>

definition set_int_prop :: "string \<Rightarrow> int \<Rightarrow> object \<Rightarrow> error + object" where
  "set_int_prop k i ob =
     (if - (2 ^ 31) \<le> i \<and> i < 2 ^ 31 then Inr (set_prop k (PInt i) ob)
      else Inl (OverflowError k))"

text \<open>\<open>ob.select_set(v)\<close> has no effect on an object that is hidden in the viewport.\<close>

definition select_set :: "bool \<Rightarrow> object \<Rightarrow> object" where
  "select_set v ob = (if hide ob then ob else ob\<lparr>select := v\<rparr>)"

text \<open>
  What the sources call but do not contain, as parameters: the host's file system,
  Python's printing of floats and containers, matrix inversion (\<open>None\<close> for a singular
  matrix), and three functions of modules of the add-on that are not among the sources:
  \<open>utils.get_direction_vector\<close>, \<open>material.assign_material\<close> and \<open>utils.move_to\<close>. The last
  two act on the item they are given and may raise.
\<close>

record env =
  str_other :: "pyval \<Rightarrow> string"
  isfile :: "string \<Rightarrow> bool"
  get_direction_vector :: "mat4 \<Rightarrow> string \<Rightarrow> vec3"
  inverted :: "mat4 \<Rightarrow> mat4 option"
  assign_material :: "pyval \<Rightarrow> object \<Rightarrow> error + object"
  move_to :: "pyval \<Rightarrow> pyval \<Rightarrow> pyval \<Rightarrow> object \<Rightarrow> error + object"

section \<open>\<open>parts.py\<close>: the part builder\<close>

record light_values =
  ltype :: string
  location :: vec3
  others :: dict

record part_builder =
  lights_dictionary :: "(string \<times> (string \<times> light_values) list) list"
  part_cache :: "(string \<times> string option) list"
  part_reference :: "(string \<times> string \<times> string) list"

text \<open>
  \<open>PartBuilder.__init__\<close>: the catalogue read from disk is the argument; the cache starts
  empty. A cache entry is an object reference: \<open>Some nm\<close> while the object exists, \<open>nm\<close>
  being the name the reference reads, and \<open>None\<close> once the object has been removed, when
  reading its name raises \<open>ReferenceError\<close>.
\<close>

definition init_part_builder ::
  "(string \<times> (string \<times> light_values) list) list \<Rightarrow> (string \<times> string \<times> string) list \<Rightarrow> part_builder" where
  "init_part_builder lights reference =
     \<lparr> lights_dictionary = lights, part_cache = [], part_reference = reference \<rparr>"

definition clear_cache :: "part_builder \<Rightarrow> part_builder" where
  "clear_cache b = b\<lparr>part_cache := []\<rparr>"

text \<open>
  The part builders a run can meet. The builder is made by \<open>__init__\<close>; of all the methods
  of the class only \<open>clear_cache\<close> assigns to or mutates one of its attributes, and nothing
  in \<open>__init__.py\<close> touches \<open>part_cache\<close>. Every other method leaves the builder unchanged,
  which is why it is passed to them and never returned.
\<close>

inductive reachable :: "part_builder \<Rightarrow> bool" where
  created: "reachable (init_part_builder lights reference)"
| cleared: "reachable b \<Longrightarrow> reachable (clear_cache b)"

definition get_obj_path :: "part_builder \<Rightarrow> string \<Rightarrow> string option" where
  "get_obj_path b part = map_option snd (map_of (part_reference b) part)"

text \<open>\<open>get_all_nms_objects\<close>: the result is the list of references.\<close>

fun flat_parts :: "scene \<Rightarrow> nat \<Rightarrow> error + nat list" where
  "flat_parts [] i = Inr []"
| "flat_parts (ob # obs) i =
     bind (getitem (props ob) ''belongs_to_preset'') (\<lambda>v.
     bind (flat_parts obs (Suc i)) (\<lambda>rest.
     Inr (if v = PBool False then i # rest else rest)))"

definition get_all_nms_objects :: "scene \<Rightarrow> bool \<Rightarrow> error + nat list" where
  "get_all_nms_objects sc capture_presets =
     (if capture_presets then
        (let presets = filter (\<lambda>i. has_key (props (sc ! i)) ''presetID'') [0..<length sc]
         in bind (flat_parts sc 0) (\<lambda>flat. Inr (presets @ flat)))
      else Inr (filter (\<lambda>i. has_key (props (sc ! i)) ''objectID'') [0..<length sc]))"

definition upper :: "string \<Rightarrow> string" where
  "upper s = map (\<lambda>c. if 97 \<le> (of_char c :: nat) \<and> (of_char c :: nat) \<le> 122
                       then char_of (of_char c - 32 :: nat) else c) s"

text \<open>
  Modelled from the spec: \<open>utils.parent\<close> (the \<open>utils\<close> module is not among the sources),
  which parks an object under another as an attachment. Only the parent link is kept.
\<close>

definition parent_to :: "nat \<Rightarrow> nat \<Rightarrow> scene \<Rightarrow> scene" where
  "parent_to item light sc = modify light (\<lambda>x. x\<lparr>parent := Some item\<rparr>) sc"

text \<open>
  One round of the loop of \<open>build_light\<close>; \<open>item\<close> is a reference into the scene. The
  remaining light properties are stored as they are in the catalogue (the code wraps a
  list into a vector first).
\<close>

definition build_one_light :: "nat \<Rightarrow> nat \<Rightarrow> light_values \<Rightarrow> scene \<Rightarrow> scene" where
  "build_one_light item idx lv sc =
     (let (sc1, light) =
            add_object (fresh_object (Lamp (upper (ltype lv))) ''Lamp'' (translated (location lv))) sc;
          sc2 = modify light (set_prop ''NMS_LIGHT'' (PBool True)) sc1;
          sc3 = modify light
                  (\<lambda>x. x\<lparr>name := name (sc2 ! item) @ ''_light'' @ str_of_int (int idx)\<rparr>) sc2;
          sc4 = modify light (\<lambda>x. x\<lparr>data_attrs := fold (\<lambda>(k, v) d. setitem d k v) (others lv) (data_attrs x)\<rparr>) sc3;
          sc5 = parent_to item light sc4;
          sc6 = modify light (\<lambda>x. x\<lparr>hide := True\<rparr>) sc5
      in modify light (\<lambda>x. x\<lparr>hide_select := True\<rparr>) sc6)"

fun build_lights_from :: "nat \<Rightarrow> nat \<Rightarrow> light_values list \<Rightarrow> scene \<Rightarrow> scene" where
  "build_lights_from item idx [] sc = sc"
| "build_lights_from item idx (lv # lvs) sc =
     build_lights_from item (Suc idx) lvs (build_one_light item idx lv sc)"

definition build_light :: "part_builder \<Rightarrow> nat \<Rightarrow> scene \<Rightarrow> scene" where
  "build_light b item sc =
     (case map_of (props (sc ! item)) ''objectID'' of
        None \<Rightarrow> sc
      | Some object_id \<Rightarrow>
          (case (case object_id of PStr s \<Rightarrow> map_of (lights_dictionary b) s | _ \<Rightarrow> None) of
             None \<Rightarrow> sc
           | Some light_information \<Rightarrow> build_lights_from item 0 (map snd light_information) sc))"

text \<open>
  \<open>retrieve_part\<close>. In the cache branch the source returns
  \<open>utils.duplicate_hierarchy(item)\<close>, where \<open>item\<close> is a local variable of the function
  that is assigned only further down: reading it raises \<open>UnboundLocalError\<close>.
\<close>

definition cache_hit :: "part_builder \<Rightarrow> string \<Rightarrow> scene \<Rightarrow> bool" where
  "cache_hit b part_name sc =
     (case map_of (part_cache b) part_name of
        Some (Some item_object_name) \<Rightarrow> item_object_name \<in> set (map name sc)
      | _ \<Rightarrow> False)"

definition retrieve_part :: "env \<Rightarrow> part_builder \<Rightarrow> string \<Rightarrow> scene \<Rightarrow> error + nat \<times> scene" where
  "retrieve_part h b part_name sc =
     (if map_of (part_cache b) part_name = Some None then Inl (ReferenceError ''name'')
      else if cache_hit b part_name sc then Inl (UnboundLocalError ''item'')
      else
        let obj_path = (case get_obj_path b part_name of None \<Rightarrow> [] | Some p \<Rightarrow> p);
            (sc1, item) =
              (if isfile h obj_path then add_object (fresh_object (Imported obj_path) obj_path identity4) sc
               else add_object (fresh_object Cube ''Cube'' identity4) sc);
            sc2 = modify item (\<lambda>x. x\<lparr>name := part_name\<rparr>) sc1;
            sc3 = modify item (set_prop ''objectID'' (PStr part_name)) sc2
        in Inr (item, build_light b item sc3))"

text \<open>
  \<open>get_part_data\<close>. The product \<open>mat_rot * ob_world_matrix\<close> is the matrix product, as the
  comment above it in the source says; the position is the translation of the result.
\<close>

definition get_part_data :: "env \<Rightarrow> object \<Rightarrow> bool \<Rightarrow> error + dict" where
  "get_part_data h ob is_preset =
     (let ob_world_matrix = matrix_world ob;
          mat_rot = Rotation (radians (- 90)) X;
          obj_wm_offset = mat_mul mat_rot ob_world_matrix;
          pos = translation obj_wm_offset;
          up_vec = get_direction_vector h obj_wm_offset ''up'';
          at_vec = get_direction_vector h obj_wm_offset ''at''
      in bind (getitem (props ob) ''objectID'') (\<lambda>object_id.
         let data = [(''ObjectID'', PStr (CHR ''^'' # py_str (str_other h) object_id)),
                     (''Position'', vec_list pos),
                     (''Up'', vec_list up_vec),
                     (''At'', vec_list at_vec)]
         in if \<not> is_preset then
              bind (getitem (props ob) ''Timestamp'') (\<lambda>timestamp.
              bind (getitem (props ob) ''UserData'') (\<lambda>user_data.
              bind (py_int timestamp) (\<lambda>ts.
              bind (py_int user_data) (\<lambda>ud.
              Inr (setitem (setitem data ''Timestamp'' (PInt ts)) ''UserData'' (PInt ud))))))
            else Inr data))"

text \<open>
  \<open>build_item\<close>. The timestamp is an integer, as the docstring has it; the colour index
  and the three vectors are handed on to the two helpers. The defaults of the keyword
  arguments are \<open>build_item_default\<close>.
\<close>

definition build_item ::
  "env \<Rightarrow> part_builder \<Rightarrow> string \<Rightarrow> int \<Rightarrow> pyval \<Rightarrow> pyval \<Rightarrow> pyval \<Rightarrow> pyval \<Rightarrow> scene
     \<Rightarrow> error + nat \<times> scene" where
  "build_item h b part timestamp userdata position up_vec at_vec sc =
     bind (retrieve_part h b part sc) (\<lambda>(item, sc1).
       let sc2 = modify item (\<lambda>x. x\<lparr>lock_scale := (True, True, True)\<rparr>) sc1;
           sc3 = (if part = ''BASE_FLAG''
                  then modify item (\<lambda>x. x\<lparr>lock_location := (True, True, True),
                                           lock_rotation := (True, True, True)\<rparr>) sc2
                  else sc2);
           sc4 = modify item (set_prop ''objectID'' (PStr part)) sc3
       in bind (modify_res item (set_int_prop ''Timestamp'' timestamp) sc4) (\<lambda>sc5.
          let sc6 = modify item (set_prop ''belongs_to_preset'' (PBool False)) sc5
          in bind (modify_res item (assign_material h userdata) sc6) (\<lambda>sc7.
             bind (modify_res item (move_to h position up_vec at_vec) sc7) (\<lambda>sc8.
             Inr (item, modify item (\<lambda>x. x\<lparr>select := True\<rparr>) sc8)))))"

definition build_item_default :: "env \<Rightarrow> part_builder \<Rightarrow> string \<Rightarrow> scene \<Rightarrow> error + nat \<times> scene" where
  "build_item_default h b part sc =
     build_item h b part 1539023700 (PInt 0)
       (PList [PInt 0, PInt 0, PInt 0]) (PList [PInt 0, PInt 1, PInt 0]) (PList [PInt 0, PInt 0, PInt 1]) sc"

section \<open>\<open>__init__.py\<close>: the settings\<close>

record settings =
  string_base :: string
  string_address :: string
  string_usn :: string
  string_uid :: string
  string_lid :: string
  string_ptk :: string
  string_ts :: string
  string_last_ts :: string
  float_pos_x :: real
  float_pos_y :: real
  float_pos_z :: real
  float_ori_x :: real
  float_ori_y :: real
  float_ori_z :: real
  LastEditedById :: string
  LastEditedByUsername_value :: string
  original_base_version :: int
  room_vis_switch :: int

text \<open>
  The state \<open>new_file\<close> and \<open>generate_from_data\<close> work on: the property group, the objects
  of the scene, and the attribute \<open>part_order\<close> that \<open>new_file\<close> sets on the part builder.
\<close>

record state =
  self :: settings
  objects :: scene
  part_order :: "int option"

definition reset_fields :: "settings \<Rightarrow> settings" where
  "reset_fields s =
     s\<lparr> string_address := [], string_base := [], string_lid := [], string_ts := [],
        string_uid := [], string_usn := [], string_ptk := [],
        float_pos_x := 0, float_pos_y := 0, float_pos_z := 0,
        float_ori_x := 0, float_ori_y := 0, float_ori_z := 0,
        string_last_ts := [], LastEditedById := [], original_base_version := 3,
        LastEditedByUsername_value := [] \<rparr>"

text \<open>The body of the loop of \<open>new_file\<close> that selects what is to be deleted.\<close>

definition select_nms_item :: "object \<Rightarrow> object" where
  "select_nms_item ob =
     (let ob1 = (if has_key (props ob) ''ObjectID''
                 then select_set True (ob\<lparr>hide_select := False\<rparr>) else ob);
          ob2 = (if has_key (props ob1) ''PresetID''
                 then select_set True (ob1\<lparr>hide_select := False\<rparr>) else ob1);
          ob3 = (if has_key (props ob2) ''NMS_LIGHT''
                 then select_set True (ob2\<lparr>hide := False, hide_select := False\<rparr>) else ob2)
      in if has_key (props ob3) ''base_builder_item''
         then select_set True (ob3\<lparr>hide := False, hide_select := False\<rparr>) else ob3)"

text \<open>
  \<open>bpy.ops.object.select_all(action="DESELECT")\<close> and \<open>bpy.ops.object.delete()\<close>, which
  removes the selected objects.
\<close>

definition select_all_deselect :: "scene \<Rightarrow> scene" where
  "select_all_deselect sc = map (\<lambda>x. x\<lparr>select := False\<rparr>) sc"

definition delete_selected :: "scene \<Rightarrow> scene" where
  "delete_selected sc = filter (\<lambda>x. \<not> select x) sc"

definition new_file :: "state \<Rightarrow> state" where
  "new_file st =
     (let s1 = reset_fields (self st);
          sc1 = select_all_deselect (objects st);
          sc2 = map select_nms_item sc1;
          sc3 = delete_selected sc2
      in \<lparr> self = s1\<lparr>room_vis_switch := 0\<rparr>, objects = sc3, part_order = Some 0 \<rparr>)"

text \<open>
  \<open>generate_data\<close>. \<open>part_data\<close> is the outcome of
  \<open>PART_BUILDER.get_all_part_data(capture_presets=capture_presets)\<close> and \<open>preset_data\<close> that
  of \<open>PRESET_BUILDER.get_all_preset_data()\<close>, which is evaluated only when presets are
  captured; an exception raised in either passes through.
\<close>

definition int_or_text :: "string \<Rightarrow> pyval" where
  "int_or_text s = (case int_of_str s of Some i \<Rightarrow> PInt i | None \<Rightarrow> PStr s)"

definition generate_data ::
  "settings \<Rightarrow> bool \<Rightarrow> error + pyval list \<Rightarrow> error + pyval list \<Rightarrow> error + dict" where
  "generate_data s capture_presets part_data preset_data =
     (let galactive_address = int_or_text (string_address s);
          ts = int_or_text (string_ts s);
          last_ts = int_or_text (string_last_ts s);
          data =
            [(''BaseVersion'', PInt 4),
             (''OriginalBaseVersion'', PInt (original_base_version s)),
             (''GalacticAddress'', galactive_address),
             (''Position'', PList [PFloat (float_pos_x s), PFloat (float_pos_y s), PFloat (float_pos_z s)]),
             (''Forward'', PList [PFloat (float_ori_x s), PFloat (float_ori_y s), PFloat (float_ori_z s)]),
             (''UserData'', PInt 0),
             (''LastUpdateTimestamp'', last_ts),
             (''RID'', PStr []),
             (''Owner'', PDict [(''UID'', PStr (string_uid s)),
                               (''LID'', PStr (string_lid s)),
                               (''USN'', PStr (string_usn s)),
                               (''PTK'', PStr (string_ptk s)),
                               (''TS'', ts)]),
             (''Name'', PStr (string_base s)),
             (''BaseType'', PDict [(''PersistentBaseTypes'', PStr ''HomePlanetBase'')]),
             (''LastEditedById'', PStr (LastEditedById s)),
             (''LastEditedByUsername'', PStr (LastEditedByUsername_value s))]
      in bind part_data (\<lambda>parts.
         let data1 = setitem data ''Objects'' (PList parts)
         in if capture_presets
            then bind preset_data (\<lambda>presets. Inr (setitem data1 ''Presets'' (PList presets)))
            else Inr data1))"

section \<open>\<open>snap.py\<close>: the snapper\<close>

text \<open>
  The two catalogues are read from JSON files that are not among the sources; their shape
  is the one the code reads. A snap point has a matrix and may name an opposite point; a
  group lists its parts and may have snap points. The pairing catalogue maps a target
  group and a source group to a list of comma-separated option strings. The cache maps an
  object name to the dictionary of its last keys.
\<close>

record snap_point =
  matrix :: mat4
  opposite :: "string option"

record snap_group =
  parts :: "string list"
  snap_points :: "(string \<times> snap_point) list option"

type_synonym snap_reference = "(string \<times> string option) list"

record snapper =
  snap_matrix_dictionary :: "(string \<times> snap_group) list"
  snap_pair_dictionary :: "(string \<times> (string \<times> string list) list) list"
  snap_cache :: "(string \<times> snap_reference) list"

definition get_snap_matrices_from_group ::
  "snapper \<Rightarrow> string option \<Rightarrow> (string \<times> snap_point) list option" where
  "get_snap_matrices_from_group sn grp =
     (case grp of
        None \<Rightarrow> None
      | Some g \<Rightarrow>
          (case map_of (snap_matrix_dictionary sn) g of
             None \<Rightarrow> None
           | Some v \<Rightarrow> snap_points v))"

definition get_snap_group_from_part :: "snapper \<Rightarrow> pyval \<Rightarrow> string option" where
  "get_snap_group_from_part sn part_id =
     map_option fst
       (find (\<lambda>(grp, v). part_id \<in> set (map PStr (parts v))) (snap_matrix_dictionary sn))"

definition falsy_name :: "string option \<Rightarrow> bool" where
  "falsy_name g = (g = None \<or> g = Some [])"

definition get_snap_pair_options :: "snapper \<Rightarrow> pyval \<Rightarrow> pyval \<Rightarrow> string list option" where
  "get_snap_pair_options sn target_item_id source_item_id =
     (let target_group = get_snap_group_from_part sn target_item_id;
          source_group = get_snap_group_from_part sn source_item_id
      in if falsy_name target_group \<and> falsy_name source_group then None
         else
           (case target_group of
              None \<Rightarrow> None
            | Some tg \<Rightarrow>
                (case map_of (snap_pair_dictionary sn) tg of
                   None \<Rightarrow> None
                 | Some snapping_dictionary \<Rightarrow>
                     (case source_group of
                        None \<Rightarrow> None
                      | Some sg \<Rightarrow> map_of snapping_dictionary sg))))"

text \<open>\<open>s.split(",")\<close> and the list of stripped parts.\<close>

fun split_on :: "char \<Rightarrow> string \<Rightarrow> string list" where
  "split_on sep [] = [] # []"
| "split_on sep (c # cs) =
     (if c = sep then [] # split_on sep cs
      else (case split_on sep cs of [] \<Rightarrow> [c] # [] | w # ws \<Rightarrow> (c # w) # ws))"

definition pairing_options :: "string \<Rightarrow> string list" where
  "pairing_options s = map strip (split_on CHR '','' s)"

text \<open>
  Modelled from the spec: \<open>utils.get_adjacent_dict_key\<close> (not among the sources), which
  returns the next or previous entry of an ordered list cyclically, wrapping at both ends,
  and the current value unchanged if it is not in the list.
\<close>

fun index_of :: "'a \<Rightarrow> 'a list \<Rightarrow> nat option" where
  "index_of x [] = None"
| "index_of x (y # ys) = (if x = y then Some 0 else map_option Suc (index_of x ys))"

definition get_adjacent_dict_key :: "string list \<Rightarrow> string \<Rightarrow> bool \<Rightarrow> string" where
  "get_adjacent_dict_key options key forward =
     (case index_of key options of
        None \<Rightarrow> key
      | Some i \<Rightarrow>
          if forward then options ! ((i + 1) mod length options)
          else options ! ((i + length options - 1) mod length options))"

text \<open>
  Modelled from the spec: \<open>utils.select\<close> (not among the sources), which selects a list of
  objects exclusively, clearing the prior selection.
\<close>

definition select_only :: "nat list \<Rightarrow> scene \<Rightarrow> scene" where
  "select_only refs sc = map (\<lambda>(i, x). x\<lparr>select := (i \<in> set refs)\<rparr>) (zip [0..<length sc] sc)"

text \<open>The target key of \<open>snap_objects\<close> (the block under \<open>if target_local_matrix_datas\<close>).\<close>

definition resolve_target_key ::
  "string list \<Rightarrow> snap_reference \<Rightarrow> (string \<times> snap_point) list option \<Rightarrow> bool \<Rightarrow> bool
     \<Rightarrow> error + string option" where
  "resolve_target_key target_pairing_options target_item_snap_reference target_local_matrix_datas
       next_target prev_target =
     (if target_local_matrix_datas = None \<or> target_local_matrix_datas = Some [] then Inr None
      else
        (case target_pairing_options of
           [] \<Rightarrow> Inl (IndexError ''list'')
         | default_target_key # more_options \<Rightarrow>
             let target_key = (case map_of target_item_snap_reference ''target'' of
                                 None \<Rightarrow> Some default_target_key | Some k \<Rightarrow> k);
                 target_key1 = (case target_key of
                                  None \<Rightarrow> default_target_key
                                | Some k \<Rightarrow> if k \<notin> set target_pairing_options
                                            then default_target_key else k);
                 target_key2 = (if next_target
                                then get_adjacent_dict_key target_pairing_options target_key1 True
                                else target_key1);
                 target_key3 = (if prev_target
                                then get_adjacent_dict_key target_pairing_options target_key2 False
                                else target_key2)
             in Inr (Some target_key3)))"

text \<open>
  \<open>target_local_matrix_datas[target_key].get("opposite", default)\<close>, with the errors of
  the subscript.
\<close>

definition opposite_of ::
  "(string \<times> snap_point) list option \<Rightarrow> string option \<Rightarrow> string \<Rightarrow> error + string" where
  "opposite_of datas key dflt =
     (case datas of
        None \<Rightarrow> Inl (TypeError ''subscript'')
      | Some points \<Rightarrow>
          (case key of
             None \<Rightarrow> Inl (KeyError ''None'')
           | Some k \<Rightarrow>
               (case map_of points k of
                  None \<Rightarrow> Inl (KeyError k)
                | Some p \<Rightarrow> Inr (case opposite p of None \<Rightarrow> dflt | Some opp \<Rightarrow> opp))))"

text \<open>The source key of \<open>snap_objects\<close> (the block under \<open>if source_local_matrix_datas\<close>).\<close>

definition resolve_source_key ::
  "string list \<Rightarrow> snap_reference \<Rightarrow> (string \<times> snap_point) list option
     \<Rightarrow> (string \<times> snap_point) list option \<Rightarrow> string option \<Rightarrow> pyval \<Rightarrow> pyval
     \<Rightarrow> bool \<Rightarrow> bool \<Rightarrow> bool \<Rightarrow> bool \<Rightarrow> error + string option" where
  "resolve_source_key source_pairing_options source_item_snap_reference source_local_matrix_datas
       target_local_matrix_datas target_key source_id target_id
       next_source prev_source next_target prev_target =
     (if source_local_matrix_datas = None \<or> source_local_matrix_datas = Some [] then Inr None
      else
        (case source_pairing_options of
           [] \<Rightarrow> Inl (IndexError ''list'')
         | first_option # more_options \<Rightarrow>
             bind (if source_id = target_id
                   then opposite_of target_local_matrix_datas target_key first_option
                   else Inr first_option) (\<lambda>default_source_key.
             bind (if source_id = target_id \<and> (prev_target \<or> next_target)
                   then bind (opposite_of target_local_matrix_datas target_key default_source_key)
                          (\<lambda>k. Inr (Some k))
                   else Inr (case map_of source_item_snap_reference ''source'' of
                               None \<Rightarrow> Some default_source_key | Some k \<Rightarrow> k)) (\<lambda>source_key.
             let source_key1 = (case source_key of
                                  None \<Rightarrow> default_source_key
                                | Some k \<Rightarrow> if k \<notin> set source_pairing_options
                                            then default_source_key else k);
                 source_key2 = (if next_source
                                then get_adjacent_dict_key source_pairing_options source_key1 True
                                else source_key1);
                 source_key3 = (if prev_source
                                then get_adjacent_dict_key source_pairing_options source_key2 False
                                else source_key2)
             in Inr (Some source_key3)))))"

text \<open>The transform of the snapped source (the matrix arithmetic of \<open>snap_objects\<close>).\<close>

definition invert :: "env \<Rightarrow> mat4 \<Rightarrow> error + mat4" where
  "invert h m = (case inverted h m of None \<Rightarrow> Inl (ValueError ''invert'') | Some r \<Rightarrow> Inr r)"

definition point_matrix :: "(string \<times> snap_point) list option \<Rightarrow> string \<Rightarrow> error + mat4" where
  "point_matrix datas key =
     (case datas of
        None \<Rightarrow> Inl (TypeError ''subscript'')
      | Some points \<Rightarrow>
          (case map_of points key of None \<Rightarrow> Inl (KeyError key) | Some p \<Rightarrow> Inr (matrix p)))"

definition snap_location ::
  "env \<Rightarrow> mat4 \<Rightarrow> mat4 \<Rightarrow> (string \<times> snap_point) list option \<Rightarrow> string
     \<Rightarrow> (string \<times> snap_point) list option \<Rightarrow> string \<Rightarrow> error + mat4" where
  "snap_location h source_world target_world source_local_matrix_datas source_key
       target_local_matrix_datas target_key =
     (let start_matrix = source_world
      in bind (invert h source_world) (\<lambda>start_matrix_inv.
         bind (point_matrix source_local_matrix_datas source_key) (\<lambda>offset_matrix.
         let target_matrix = target_world
         in bind (point_matrix target_local_matrix_datas target_key) (\<lambda>target_offset_matrix.
         let target_snap_matrix = mat_mul target_matrix target_offset_matrix;
             snap_matrix = mat_mul start_matrix offset_matrix
         in bind (invert h snap_matrix) (\<lambda>snap_matrix_inv.
         let origin_matrix = mat_mul snap_matrix_inv snap_matrix;
             rotation_matrix = Rotation (radians 180) Y;
             origin_flipped_matrix = mat_mul rotation_matrix origin_matrix;
             flipped_snap_matrix = mat_mul snap_matrix origin_flipped_matrix;
             flipped_local_offset = mat_mul start_matrix_inv flipped_snap_matrix
         in bind (invert h flipped_local_offset) (\<lambda>flipped_local_offset_inv.
         Inr (mat_mul target_snap_matrix flipped_local_offset_inv)))))))"

text \<open>
  The cache update at the end of \<open>snap_objects\<close>. The two references are the same
  dictionary when source and target have the same name and the cache has an entry for it;
  otherwise they are two dictionaries, stored one after the other.
\<close>

definition update_snap_cache ::
  "(string \<times> snap_reference) list \<Rightarrow> string \<Rightarrow> string \<Rightarrow> string \<Rightarrow> string option \<Rightarrow> string
     \<Rightarrow> (string \<times> snap_reference) list" where
  "update_snap_cache cache source_name target_name source_key next_target_key target_key =
     (let target_ref = (case map_of cache target_name of None \<Rightarrow> [] | Some r \<Rightarrow> r);
          source_ref = (case map_of cache source_name of None \<Rightarrow> [] | Some r \<Rightarrow> r)
      in if source_name = target_name \<and> map_of cache source_name \<noteq> None then
           AList.update source_name
             (AList.update ''target'' (Some target_key)
               (AList.update ''target'' next_target_key
                 (AList.update ''source'' (Some source_key) source_ref))) cache
         else
           AList.update target_name (AList.update ''target'' (Some target_key) target_ref)
             (AList.update source_name
               (AList.update ''target'' next_target_key
                 (AList.update ''source'' (Some source_key) source_ref)) cache))"

text \<open>
  \<open>snap_objects\<close>. The result is what the call returns (\<open>None\<close>, \<open>False\<close> or \<open>True\<close>), the
  scene and the snapper after it.
\<close>

definition snap_objects ::
  "env \<Rightarrow> snapper \<Rightarrow> scene \<Rightarrow> nat \<Rightarrow> nat \<Rightarrow> bool \<Rightarrow> bool \<Rightarrow> bool \<Rightarrow> bool
     \<Rightarrow> error + pyval \<times> scene \<times> snapper" where
  "snap_objects h sn sc source target next_source prev_source next_target prev_target =
     (if \<not> (source < length sc \<and> target < length sc) then Inl (ReferenceError ''object'')
      else if has_key (props (sc ! target)) ''PresetID'' then
        Inr (PNone,
             select_only [source]
               (modify source (\<lambda>x. x\<lparr>matrix_world := matrix_world (sc ! target)\<rparr>) sc),
             sn)
      else if \<not> has_key (props (sc ! source)) ''SnapID'' then Inr (PBool False, sc, sn)
      else if \<not> has_key (props (sc ! target)) ''SnapID'' then Inr (PBool False, sc, sn)
      else
        let sc1 = select_only [source]
                    (modify source (\<lambda>x. x\<lparr>matrix_world := matrix_world (sc ! target)\<rparr>) sc);
            target_id = get_default (props (sc1 ! target)) ''SnapID'' PNone;
            source_id = get_default (props (sc1 ! source)) ''SnapID'' PNone;
            snap_pairing_options = get_snap_pair_options sn target_id source_id
        in (case snap_pairing_options of
              None \<Rightarrow> Inr (PBool False, sc1, sn)
            | Some [] \<Rightarrow> Inr (PBool False, sc1, sn)
            | Some [opts0] \<Rightarrow> Inl (IndexError ''list'')
            | Some (opts0 # opts1 # opts_rest) \<Rightarrow>
                let target_pairing_options = pairing_options opts0;
                    source_pairing_options = pairing_options opts1;
                    target_item_snap_reference =
                      (case map_of (snap_cache sn) (name (sc1 ! target)) of None \<Rightarrow> [] | Some r \<Rightarrow> r);
                    target_local_matrix_datas =
                      get_snap_matrices_from_group sn (get_snap_group_from_part sn target_id);
                    source_item_snap_reference =
                      (case map_of (snap_cache sn) (name (sc1 ! source)) of None \<Rightarrow> [] | Some r \<Rightarrow> r);
                    source_local_matrix_datas =
                      get_snap_matrices_from_group sn (get_snap_group_from_part sn source_id)
                in bind (resolve_target_key target_pairing_options target_item_snap_reference
                           target_local_matrix_datas next_target prev_target) (\<lambda>target_key.
                   bind (resolve_source_key source_pairing_options source_item_snap_reference
                           source_local_matrix_datas target_local_matrix_datas target_key
                           source_id target_id next_source prev_source next_target prev_target)
                     (\<lambda>source_key.
                   (case (source_key, target_key) of
                      (Some sk, Some tk) \<Rightarrow>
                        if sk = [] \<or> tk = [] then Inr (PNone, sc1, sn)
                        else
                          bind (snap_location h (matrix_world (sc1 ! source)) (matrix_world (sc1 ! target))
                                  source_local_matrix_datas sk target_local_matrix_datas tk)
                            (\<lambda>target_location.
                          let next_target_key =
                                (case source_local_matrix_datas of
                                   None \<Rightarrow> None
                                 | Some points \<Rightarrow>
                                     (case map_of points sk of None \<Rightarrow> None | Some p \<Rightarrow> opposite p));
                              sc2 = modify source (\<lambda>x. x\<lparr>matrix_world := target_location\<rparr>) sc1;
                              cache = update_snap_cache (snap_cache sn) (name (sc2 ! source))
                                        (name (sc2 ! target)) sk next_target_key tk
                          in Inr (PBool True, select_only [target, source] sc2,
                                  sn\<lparr>snap_cache := cache\<rparr>))
                    | _ \<Rightarrow> Inr (PNone, sc1, sn))))))"

section \<open>\<open>part_overrides/messagemodule.py\<close>\<close>

text \<open>
  \<open>MESSAGEMODULE\<close> extends the class \<open>part.Part\<close>, which is not among the sources: the
  \<open>serialise\<close> and \<open>deserialise_from_data\<close> of the base class are the parameters
  \<open>base_serialise\<close> and \<open>base_deserialise\<close>. A part is its scene object.
\<close>

definition message :: "object \<Rightarrow> pyval" where
  "message ob = get_default (props ob) ''Message'' (PStr [])"

definition set_message :: "(pyval \<Rightarrow> string) \<Rightarrow> pyval \<Rightarrow> object \<Rightarrow> object" where
  "set_message str v ob = set_prop ''Message'' (PStr (py_str str v)) ob"

definition serialise :: "(object \<Rightarrow> error + dict) \<Rightarrow> object \<Rightarrow> error + dict" where
  "serialise base_serialise ob =
     bind (base_serialise ob) (\<lambda>data. Inr (setitem data ''Message'' (message ob)))"

definition deserialise_from_data ::
  "(pyval \<Rightarrow> string) \<Rightarrow> (dict \<Rightarrow> error + object) \<Rightarrow> dict \<Rightarrow> error + object" where
  "deserialise_from_data str base_deserialise data =
     bind (base_deserialise data) (\<lambda>part.
       Inr (set_message str (get_default data ''Message'' (PStr [])) part))"


section \<open>Concrete inputs\<close>

text \<open>
  An environment for the concrete runs below: no asset file is on disk; the direction
  helper returns a basis column of the transform it is given, the Y column for \<open>up\<close> and
  the Z column for \<open>at\<close>; the colour helper assigns the material and the move helper sets
  the transform, and neither does anything else; no matrix is inverted.
\<close>

definition bare_env :: env where
  "bare_env =
     \<lparr> str_other = (\<lambda>v. []),
       isfile = (\<lambda>p. False),
       get_direction_vector = (\<lambda>m d. if d = ''up'' then basis_column Y m else basis_column Z m),
       inverted = (\<lambda>m. None),
       assign_material = (\<lambda>colour_index ob. Inr (ob\<lparr>material := Some (''CONCRETE'', colour_index)\<rparr>)),
       move_to = (\<lambda>position up_vec at_vec ob. Inr (ob\<lparr>matrix_world := identity4\<rparr>)) \<rparr>"

definition no_catalogue :: part_builder where
  "no_catalogue = init_part_builder [] []"

text \<open>
  The object \<open>build_item\<close> leaves in an empty scene for the part \<open>BASE_FLAG\<close> with the
  default arguments.
\<close>

definition built_flag :: object where
  "built_flag =
     \<lparr> name = ''BASE_FLAG'',
       props = [(''objectID'', PStr ''BASE_FLAG''), (''Timestamp'', PInt 1539023700),
                (''belongs_to_preset'', PBool False)],
       matrix_world = identity4,
       lock_location = (True, True, True), lock_rotation = (True, True, True),
       lock_scale = (True, True, True),
       select = True, hide = False, hide_select = False, parent = None,
       material = Some (''CONCRETE'', PInt 0), made_by = Cube, data_attrs = [] \<rparr>"

text \<open>
  A part with all four tags, the colour index held as text, standing at \<open>(1, 2, 3)\<close> and
  turned by a quarter about X.
\<close>

definition turned_part :: object where
  "turned_part =
     (fresh_object Cube ''WALL''
        (Mat4 (Vec4 1 0 0 1) (Vec4 0 0 (- 1) 2) (Vec4 0 1 0 3) (Vec4 0 0 0 1)))
       \<lparr> props := [(''objectID'', PStr ''WALL''), (''Timestamp'', PInt 1539023700),
                   (''belongs_to_preset'', PBool False), (''UserData'', PStr '' 7'')] \<rparr>"

definition blank_settings :: settings where
  "blank_settings =
     \<lparr> string_base = [], string_address = [], string_usn = [], string_uid = [],
       string_lid = [], string_ptk = [], string_ts = [], string_last_ts = [],
       float_pos_x = 0, float_pos_y = 0, float_pos_z = 0,
       float_ori_x = 0, float_ori_y = 0, float_ori_z = 0,
       LastEditedById = [], LastEditedByUsername_value = [],
       original_base_version = 3, room_vis_switch = 0 \<rparr>"

text \<open>A catalogue in which the part \<open>LAMP\<close> has one light.\<close>

definition lit_catalogue :: part_builder where
  "lit_catalogue =
     init_part_builder
       [(''LAMP'', [(''light0'', \<lparr> ltype = ''point'', location = (0, 0, 1), others = [] \<rparr>)])] []"

text \<open>
  A builder whose cache holds an entry, which no run of the sources produces, for an
  object that is present in the scene.
\<close>

definition cached_builder :: part_builder where
  "cached_builder = no_catalogue\<lparr>part_cache := [(''BASE_FLAG'', Some ''BASE_FLAG'')]\<rparr>"

text \<open>
  Settings whose address is a number after a blank, whose owner timestamp is no number,
  and whose update timestamp starts with the separator 28, which \<open>int\<close> does not skip.
\<close>

definition sample_settings :: settings where
  "sample_settings =
     blank_settings\<lparr> string_address := '' 42'', string_ts := ''abc'',
                      string_last_ts := [CHR 0x1C, CHR ''4'', CHR ''2''] \<rparr>"

text \<open>Stand-ins for the two methods of the base class \<open>part.Part\<close> in a concrete run.\<close>

definition plain_serialise :: "object \<Rightarrow> error + dict" where
  "plain_serialise ob = Inr [(''ObjectID'', PStr ''^MESSAGEMODULE''), (''UserData'', PInt 0)]"

definition plain_deserialise :: "dict \<Rightarrow> error + object" where
  "plain_deserialise doc = Inr built_flag"

text \<open>
  Two parts \<open>A\<close> and \<open>B\<close> of one snap group with two mutually opposite snap points, a
  pairing of the group with itself, and the same catalogue without the pairing.
\<close>

definition wall_points :: "(string \<times> snap_point) list" where
  "wall_points =
     [(''P1'', \<lparr> matrix = identity4, opposite = Some ''P2'' \<rparr>),
      (''P2'', \<lparr> matrix = identity4, opposite = Some ''P1'' \<rparr>)]"

definition wall_snapper :: snapper where
  "wall_snapper =
     \<lparr> snap_matrix_dictionary =
         [(''WALL'', \<lparr> parts = [''A'', ''B''], snap_points = Some wall_points \<rparr>)],
       snap_pair_dictionary = [(''WALL'', [(''WALL'', [''P1, P2'', ''P2, P1''])])],
       snap_cache = [] \<rparr>"

definition unpaired_snapper :: snapper where
  "unpaired_snapper = wall_snapper\<lparr>snap_pair_dictionary := []\<rparr>"

definition part_A :: object where
  "part_A = set_prop ''SnapID'' (PStr ''A'') (fresh_object Cube ''A'' (translated (1, 2, 3)))"

definition part_B :: object where
  "part_B = set_prop ''SnapID'' (PStr ''B'') (fresh_object Cube ''B'' (translated (4, 5, 6)))"

text \<open>
  An environment that inverts the matrices that are their own inverse, and parts of the
  wall group at the origin: one \<open>A\<close>, one \<open>B\<close>, and a second \<open>A\<close>.
\<close>

definition mirror_env :: env where
  "mirror_env = bare_env\<lparr>inverted := (\<lambda>m. if mat_mul m m = identity4 then Some m else None)\<rparr>"

definition wall_A :: object where
  "wall_A = set_prop ''SnapID'' (PStr ''A'') (fresh_object Cube ''A'' identity4)"

definition wall_B :: object where
  "wall_B = set_prop ''SnapID'' (PStr ''B'') (fresh_object Cube ''B'' identity4)"

definition second_A :: object where
  "second_A = set_prop ''SnapID'' (PStr ''A'') (fresh_object Cube ''A2'' identity4)"


text \<open>The wall catalogue with a pairing whose first target option is no declared point.\<close>

definition stray_snapper :: snapper where
  "stray_snapper = wall_snapper\<lparr>snap_pair_dictionary := [(''WALL'', [(''WALL'', [''P9'', ''P1''])])]\<rparr>"
section \<open>Properties\<close>

subsection \<open>Auxiliary facts\<close>

lemma bind_simps [simp]: "bind (Inl e) f = Inl e" "bind (Inr x) f = f x"
  by (simp_all add: bind_def)

lemma getitem_simps:
  "map_of d k = None \<Longrightarrow> getitem d k = Inl (KeyError k)"
  "map_of d k = Some v \<Longrightarrow> getitem d k = Inr v"
  by (simp_all add: getitem_def)

lemma quarter_turn [simp]: "cos (radians (- 90)) = 0" "sin (radians (- 90)) = - 1"
proof -
  have "radians (- 90) = - (pi / 2)" by (simp add: radians_def)
  then show "cos (radians (- 90)) = 0" "sin (radians (- 90)) = - 1" by simp_all
qed

text \<open>
  In exact arithmetic the rotation by -90 degrees about X sends the translation
  \<open>(x, y, z)\<close> of a transform to \<open>(x, z, - y)\<close>.
\<close>

lemma translation_rotated:
  "translation (mat_mul (Rotation (radians (- 90)) X) M) =
     (case translation M of (x, y, z) \<Rightarrow> (x, z, - y))"
proof -
  obtain r0 r1 r2 r3 where M: "M = Mat4 r0 r1 r2 r3" by (cases M)
  obtain a0 a1 a2 a3 where r0: "r0 = Vec4 a0 a1 a2 a3" by (cases r0)
  obtain b0 b1 b2 b3 where r1: "r1 = Vec4 b0 b1 b2 b3" by (cases r1)
  obtain c0 c1 c2 c3 where r2: "r2 = Vec4 c0 c1 c2 c3" by (cases r2)
  obtain d0 d1 d2 d3 where r3: "r3 = Vec4 d0 d1 d2 d3" by (cases r3)
  show ?thesis
    by (simp add: M r0 r1 r2 r3 row_times_def)
qed

lemma modify_Cons:
  "modify 0 f (x # xs) = f x # xs"
  "modify (Suc i) f (x # xs) = x # modify i f xs"
  "modify i f [] = []"
  by (simp_all add: modify_def)

lemma modify_res_Cons:
  "modify_res 0 f (x # xs) = bind (f x) (\<lambda>y. Inr (y # xs))"
  "modify_res i f [] = Inr []"
  by (simp_all add: modify_res_def)

lemma modify_length [simp]: "length (modify i f sc) = length sc"
  by (simp add: modify_def)

lemma modify_nth_same [simp]: "i < length sc \<Longrightarrow> modify i f sc ! i = f (sc ! i)"
  by (simp add: modify_def)

lemma modify_nth_other [simp]: "j \<noteq> i \<Longrightarrow> modify i f sc ! j = sc ! j"
  by (simp add: modify_def)

lemma add_object_simps [simp]:
  "snd (add_object ob sc) = length sc"
  "length (fst (add_object ob sc)) = Suc (length sc)"
  "fst (add_object ob sc) ! length sc = ob\<lparr>select := True\<rparr>"
  "i < length sc \<Longrightarrow> fst (add_object ob sc) ! i = (sc ! i)\<lparr>select := False\<rparr>"
  by (simp_all add: add_object_def nth_append)

subsection \<open>Lights leave the objects before them as they are, apart from the selection\<close>

lemma build_one_light_length [simp]:
  "length (build_one_light item idx lv sc) = Suc (length sc)"
  by (simp add: build_one_light_def parent_to_def Let_def split_beta)

lemma build_one_light_keeps:
  "i < length sc \<Longrightarrow> build_one_light item idx lv sc ! i = (sc ! i)\<lparr>select := False\<rparr>"
  by (simp add: build_one_light_def parent_to_def Let_def split_beta)

lemma select_same: "\<exists>s. (x :: object) = x\<lparr>select := s\<rparr>"
  by (rule exI [of _ "select x"]) simp

lemma build_lights_from_keeps:
  "i < length sc \<Longrightarrow>
   length sc \<le> length (build_lights_from item idx lvs sc) \<and>
   (\<exists>s. build_lights_from item idx lvs sc ! i = (sc ! i)\<lparr>select := s\<rparr>)"
proof (induction lvs arbitrary: idx sc)
  case Nil
  show ?case using select_same [of "sc ! i"] by simp
next
  case (Cons lv lvs)
  have "i < length (build_one_light item idx lv sc)" using Cons.prems by simp
  from Cons.IH [OF this, of "Suc idx"] show ?case
    using Cons.prems by (auto simp: build_one_light_keeps)
qed

lemma build_light_keeps:
  "i < length sc \<Longrightarrow>
   length sc \<le> length (build_light b item sc) \<and>
   (\<exists>s. build_light b item sc ! i = (sc ! i)\<lparr>select := s\<rparr>)"
proof -
  assume i: "i < length sc"
  show ?thesis
    using build_lights_from_keeps [OF i] select_same [of "sc ! i"]
    by (simp add: build_light_def split: option.splits pyval.splits)
qed

subsection \<open>What \<open>retrieve_part\<close> returns\<close>

lemma cache_hit_empty [simp]: "part_cache b = [] \<Longrightarrow> \<not> cache_hit b part sc"
  by (simp add: cache_hit_def)

lemma retrieve_part_result:
  assumes "part_cache b = []"
  shows "\<exists>sc1. retrieve_part h b part sc = Inr (length sc, sc1) \<and> length sc < length sc1 \<and>
           props (sc1 ! length sc) = [(''objectID'', PStr part)] \<and>
           made_by (sc1 ! length sc) =
             (let obj_path = (case get_obj_path b part of None \<Rightarrow> [] | Some p \<Rightarrow> p)
              in if isfile h obj_path then Imported obj_path else Cube)"
proof -
  define obj_path where "obj_path = (case get_obj_path b part of None \<Rightarrow> [] | Some p \<Rightarrow> p)"
  define ob where "ob = (if isfile h obj_path then fresh_object (Imported obj_path) obj_path identity4
                         else fresh_object Cube ''Cube'' identity4)"
  define sc3 where "sc3 = modify (length sc) (set_prop ''objectID'' (PStr part))
                            (modify (length sc) (\<lambda>x. x\<lparr>name := part\<rparr>) (fst (add_object ob sc)))"
  have r: "retrieve_part h b part sc = Inr (length sc, build_light b (length sc) sc3)"
    using assms
    by (cases "isfile h obj_path")
       (simp_all add: retrieve_part_def Let_def split_beta sc3_def ob_def obj_path_def)
  have len: "length sc < length sc3" by (simp add: sc3_def)
  have "props ob = []" by (simp add: ob_def fresh_object_def)
  then have p: "props (sc3 ! length sc) = [(''objectID'', PStr part)]"
    by (simp add: sc3_def set_prop_def setitem_def)
  have m: "made_by (sc3 ! length sc) = (if isfile h obj_path then Imported obj_path else Cube)"
    by (simp add: sc3_def set_prop_def ob_def fresh_object_def)
  from build_light_keeps [OF len, of b "length sc"] obtain s where
    k: "length sc3 \<le> length (build_light b (length sc) sc3)"
       "build_light b (length sc) sc3 ! length sc = (sc3 ! length sc)\<lparr>select := s\<rparr>" by blast
  show ?thesis
    using r len p m k by (auto simp: obj_path_def)
qed

lemma no_catalogue_simps [simp]:
  "part_cache no_catalogue = []" "lights_dictionary no_catalogue = []"
  "part_reference no_catalogue = []"
  by (simp_all add: no_catalogue_def init_part_builder_def)

lemma bare_env_simps [simp]:
  "isfile bare_env path = False" "str_other bare_env v = []"
  "get_direction_vector bare_env m ''up'' = basis_column Y m"
  "get_direction_vector bare_env m ''at'' = basis_column Z m"
  "assign_material bare_env colour_index ob = Inr (ob\<lparr>material := Some (''CONCRETE'', colour_index)\<rparr>)"
  "move_to bare_env pos u a ob = Inr (ob\<lparr>matrix_world := identity4\<rparr>)"
  by (simp_all add: bare_env_def)

text \<open>A timestamp outside the 32-bit range makes \<open>build_item\<close> raise.\<close>

lemma build_item_overflow:
  "part_cache b = [] \<Longrightarrow> 2 ^ 31 \<le> timestamp \<Longrightarrow>
   build_item h b part timestamp userdata position up_vec at_vec sc = Inl (OverflowError ''Timestamp'')"
proof -
  assume c: "part_cache b = []" and t: "2 ^ 31 \<le> timestamp"
  from retrieve_part_result [OF c, of h part sc] obtain sc1 where
    r: "retrieve_part h b part sc = Inr (length sc, sc1)" and len: "length sc < length sc1" by blast
  show ?thesis
    using len t by (simp add: build_item_def r Let_def modify_res_def set_int_prop_def)
qed

lemma build_flag_run:
  "build_item_default bare_env no_catalogue ''BASE_FLAG'' [] = Inr (0, [built_flag])"
  by (simp add: build_item_default_def build_item_def retrieve_part_def get_obj_path_def
        Let_def build_light_def add_object_def fresh_object_def modify_Cons modify_res_Cons
        set_prop_def set_int_prop_def setitem_def built_flag_def)

lemma lit_run:
  "\<exists>sc. build_item_default bare_env lit_catalogue ''LAMP'' [] = Inr (0, sc) \<and>
        props (sc ! 1) = [(''NMS_LIGHT'', PBool True)] \<and> length sc = 2"
  by (simp add: build_item_default_def build_item_def retrieve_part_def lit_catalogue_def
        init_part_builder_def cache_hit_def get_obj_path_def Let_def build_light_def
        add_object_def fresh_object_def modify_Cons modify_res_Cons set_prop_def set_int_prop_def
        setitem_def build_one_light_def parent_to_def)


text \<open>
  What \<open>int\<close> makes of some texts: blanks around the literal are skipped, among them the
  no-break space 160; the separator 28 is not, although \<open>str.strip\<close> removes it.
\<close>

lemma int_of_str_samples:
  "int_of_str '' 42'' = Some 42" "int_of_str ''abc'' = None" "int_of_str [] = None"
  "int_of_str ''-7 '' = Some (- 7)" "int_of_str ''1_000'' = Some 1000" "int_of_str '' 7'' = Some 7"
  "int_of_str [CHR 0x1C, CHR ''4'', CHR ''2''] = None"
  "int_of_str [CHR 0xA0, CHR ''4'', CHR ''2''] = Some 42"
  "strip [CHR 0x1C, CHR ''4'', CHR ''2''] = ''42''"
  by (simp_all add: int_of_str_def strip_def is_space_def int_space_def unsigned_literal_def
        is_digit_def digit_val_def)

text \<open>A literal of 4301 digits is refused.\<close>

lemma int_of_str_long: "int_of_str (replicate 4301 (CHR ''1'')) = None"
proof -
  have d: "is_digit (CHR ''1'')" "\<not> int_space (CHR ''1'')" by (simp_all add: is_digit_def int_space_def)
  have r: "replicate 4301 (CHR ''1'') = CHR ''1'' # replicate 4300 (CHR ''1'')"
    by (simp add: replicate_Suc [symmetric] del: replicate_Suc)
  have f: "filter is_digit (replicate 4301 (CHR ''1'')) = replicate 4301 (CHR ''1'')"
    using d by simp
  have s: "rev (dropWhile int_space (rev (dropWhile int_space (replicate 4301 (CHR ''1''))))) =
           replicate 4301 (CHR ''1'')"
    using d by (simp add: r)
  show ?thesis
    unfolding int_of_str_def s
    by (simp add: r unsigned_literal_def f [unfolded r])
qed

subsection \<open>Claims about \<open>parts.py\<close>\<close>

text \<open>
  C4, as amended. For every object carrying an \<open>objectID\<close> tag and, when \<open>is_preset\<close> is
  false, also \<open>Timestamp\<close> and \<open>UserData\<close> tags that \<open>int\<close> accepts, \<open>get_part_data\<close>
  returns a dictionary whose \<open>ObjectID\<close> is \<open>^\<close> followed by the tag and whose \<open>Position\<close>,
  \<open>Up\<close> and \<open>At\<close> are the translation, the up basis vector and the at basis vector (what
  \<open>utils.get_direction_vector\<close> returns for \<open>up\<close> and for \<open>at\<close>) of the world transform
  premultiplied by the rotation of -90 degrees about X; it has the keys \<open>Timestamp\<close> and
  \<open>UserData\<close>, with the integers read from the tags, exactly when \<open>is_preset\<close> is false.
\<close>

theorem get_part_data_result:
  assumes "map_of (props ob) ''objectID'' = Some object_id"
    and "\<not> is_preset \<Longrightarrow>
           map_of (props ob) ''Timestamp'' = Some timestamp \<and>
           map_of (props ob) ''UserData'' = Some user_data \<and>
           py_int timestamp = Inr ts \<and> py_int user_data = Inr ud"
  shows "get_part_data h ob is_preset =
           Inr ([(''ObjectID'', PStr (CHR ''^'' # py_str (str_other h) object_id)),
                 (''Position'', vec_list (translation (mat_mul (Rotation (radians (- 90)) X) (matrix_world ob)))),
                 (''Up'', vec_list (get_direction_vector h (mat_mul (Rotation (radians (- 90)) X) (matrix_world ob)) ''up'')),
                 (''At'', vec_list (get_direction_vector h (mat_mul (Rotation (radians (- 90)) X) (matrix_world ob)) ''at''))]
                @ (if is_preset then [] else [(''Timestamp'', PInt ts), (''UserData'', PInt ud)]))"
  using assms
  by (cases is_preset) (simp_all add: get_part_data_def getitem_simps setitem_def Let_def)

text \<open>
  A part standing at \<open>(1, 2, 3)\<close> and turned by a quarter about X: the conversion undoes
  the turn and sends the position to \<open>(1, 3, - 2)\<close>; the colour index, stored as the text
  \<open>7\<close> after a blank, is read as the integer 7.
\<close>

theorem get_part_data_result_witness:
  "map_of (props turned_part) ''objectID'' = Some (PStr ''WALL'') \<and>
   map_of (props turned_part) ''Timestamp'' = Some (PInt 1539023700) \<and>
   map_of (props turned_part) ''UserData'' = Some (PStr '' 7'') \<and>
   py_int (PInt 1539023700) = Inr 1539023700 \<and> py_int (PStr '' 7'') = Inr 7 \<and>
   get_part_data bare_env turned_part False =
     Inr [(''ObjectID'', PStr ''^WALL''),
          (''Position'', PList [PFloat 1, PFloat 3, PFloat (- 2)]),
          (''Up'', PList [PFloat 0, PFloat 1, PFloat 0]),
          (''At'', PList [PFloat 0, PFloat 0, PFloat 1]),
          (''Timestamp'', PInt 1539023700), (''UserData'', PInt 7)] \<and>
   get_part_data bare_env turned_part True =
     Inr [(''ObjectID'', PStr ''^WALL''),
          (''Position'', PList [PFloat 1, PFloat 3, PFloat (- 2)]),
          (''Up'', PList [PFloat 0, PFloat 1, PFloat 0]),
          (''At'', PList [PFloat 0, PFloat 0, PFloat 1])]"
proof -
  have p: "props turned_part =
             [(''objectID'', PStr ''WALL''), (''Timestamp'', PInt 1539023700),
              (''belongs_to_preset'', PBool False), (''UserData'', PStr '' 7'')]"
    by (simp add: turned_part_def)
  have m: "matrix_world turned_part =
             Mat4 (Vec4 1 0 0 1) (Vec4 0 0 (- 1) 2) (Vec4 0 1 0 3) (Vec4 0 0 0 1)"
    by (simp add: turned_part_def fresh_object_def)
  have i: "py_int (PStr '' 7'') = Inr 7" by (simp add: int_of_str_samples)
  have a: "map_of (props turned_part) ''objectID'' = Some (PStr ''WALL'')" by (simp add: p)
  have b: "\<not> False \<Longrightarrow>
           map_of (props turned_part) ''Timestamp'' = Some (PInt 1539023700) \<and>
           map_of (props turned_part) ''UserData'' = Some (PStr '' 7'') \<and>
           py_int (PInt 1539023700) = Inr 1539023700 \<and> py_int (PStr '' 7'') = Inr 7"
    by (simp add: p int_of_str_samples)
  have c: "\<not> True \<Longrightarrow>
           map_of (props turned_part) ''Timestamp'' = Some (PInt 1539023700) \<and>
           map_of (props turned_part) ''UserData'' = Some (PStr '' 7'') \<and>
           py_int (PInt 1539023700) = Inr 1539023700 \<and> py_int (PStr '' 7'') = Inr 7"
    by simp
  from get_part_data_result [OF a b, where h = bare_env]
       get_part_data_result [OF a c, where h = bare_env]
  show ?thesis
    using a by (simp add: p m row_times_def int_of_str_samples)
qed

text \<open>
  C4 as stated fails: the part \<open>build_item\<close> leaves with the environment above (lemma
  \<open>build_flag_run\<close>) carries \<open>objectID\<close>, and \<open>get_part_data\<close> with \<open>is_preset = False\<close>
  raises on it instead of returning a dictionary. So does any object that carries
  \<open>objectID\<close> and lacks one of the other two tags.
\<close>

theorem get_part_data_counterexample:
  "has_key (props built_flag) ''objectID'' \<and>
   get_part_data bare_env built_flag False = Inl (KeyError ''UserData'')"
  by (simp add: built_flag_def has_key_def get_part_data_def getitem_def Let_def)

lemma flat_parts_fails:
  "ob \<in> set sc \<Longrightarrow> \<not> has_key (props ob) ''belongs_to_preset'' \<Longrightarrow>
   flat_parts sc i = Inl (KeyError ''belongs_to_preset'')"
proof (induction sc arbitrary: i)
  case Nil
  then show ?case by simp
next
  case (Cons x xs)
  show ?case
  proof (cases "map_of (props x) ''belongs_to_preset''")
    case None
    then show ?thesis by (simp add: getitem_def)
  next
    case (Some v)
    with Cons.prems have "ob \<in> set xs" by (auto simp: has_key_def)
    from Cons.IH [OF this Cons.prems(2)] Some show ?thesis by (simp add: getitem_def)
  qed
qed

text \<open>When every object carries the tag, the call returns the preset roots followed by the
  objects whose tag is \<open>False\<close>.\<close>

lemma flat_parts_returns:
  "\<forall>ob \<in> set sc. has_key (props ob) ''belongs_to_preset'' \<Longrightarrow>
   flat_parts sc i =
     Inr (map (\<lambda>j. i + j)
            (filter (\<lambda>j. map_of (props (sc ! j)) ''belongs_to_preset'' = Some (PBool False)) [0..<length sc]))"
proof (induction sc arbitrary: i)
  case Nil
  then show ?case by simp
next
  case (Cons x xs)
  from Cons.prems obtain v where v: "map_of (props x) ''belongs_to_preset'' = Some v"
    by (auto simp: has_key_def)
  have rest: "flat_parts xs (Suc i) =
     Inr (map (\<lambda>j. Suc i + j)
            (filter (\<lambda>j. map_of (props (xs ! j)) ''belongs_to_preset'' = Some (PBool False)) [0..<length xs]))"
    using Cons.IH [of "Suc i"] Cons.prems by simp
  have idx: "[0..<length (x # xs)] = 0 # map Suc [0..<length xs]"
    by (simp add: upt_conv_Cons map_Suc_upt del: upt_Suc)
  show ?case
    by (simp only: idx) (simp add: v getitem_def rest filter_map comp_def)
qed

text \<open>
  C9. \<open>get_all_nms_objects(capture_presets=True)\<close> reads the \<open>belongs_to_preset\<close> tag of
  every object of the scene: whenever some object lacks the tag, the call fails with a
  key-lookup error instead of returning the preset roots and the top-level parts.
\<close>

theorem get_all_nms_objects_fails:
  assumes "ob \<in> set sc" and "\<not> has_key (props ob) ''belongs_to_preset''"
  shows "get_all_nms_objects sc True = Inl (KeyError ''belongs_to_preset'')"
  using flat_parts_fails [OF assms] by (simp add: get_all_nms_objects_def Let_def)

text \<open>The witness is the scene after building a part that has a light: the light made by
  \<open>build_light\<close> is the object without the tag.\<close>

theorem get_all_nms_objects_fails_witness:
  "\<exists>sc. build_item_default bare_env lit_catalogue ''LAMP'' [] = Inr (0, sc) \<and>
     sc ! 1 \<in> set sc \<and> \<not> has_key (props (sc ! 1)) ''belongs_to_preset'' \<and>
     get_all_nms_objects sc True = Inl (KeyError ''belongs_to_preset'')"
proof -
  from lit_run obtain sc where
    r: "build_item_default bare_env lit_catalogue ''LAMP'' [] = Inr (0, sc)" and
    p: "props (sc ! 1) = [(''NMS_LIGHT'', PBool True)]" and l: "length sc = 2"
    by blast
  have a: "sc ! 1 \<in> set sc" using l by simp
  have b: "\<not> has_key (props (sc ! 1)) ''belongs_to_preset''" using p by (simp add: has_key_def)
  from get_all_nms_objects_fails [OF a b] r a b show ?thesis by blast
qed

lemma reachable_cache_empty: "reachable b \<Longrightarrow> part_cache b = []"
  by (induction rule: reachable.induct) (simp_all add: init_part_builder_def clear_cache_def)

text \<open>
  C10. \<open>part_cache\<close> is only read and cleared: it is empty in every builder a run can meet,
  so \<open>retrieve_part\<close> never takes its cache branch and returns the object it imported
  from the OBJ file, or the placeholder cube. Were the branch entered with the cached
  object's name present in the scene, the call would fail on the unassigned name \<open>item\<close>.
\<close>

theorem retrieve_part_never_duplicates:
  "(reachable b \<longrightarrow>
      \<not> cache_hit b part_name sc \<and>
      (\<exists>sc1. retrieve_part h b part_name sc = Inr (length sc, sc1) \<and> length sc < length sc1 \<and>
         made_by (sc1 ! length sc) =
           (let obj_path = (case get_obj_path b part_name of None \<Rightarrow> [] | Some p \<Rightarrow> p)
            in if isfile h obj_path then Imported obj_path else Cube))) \<and>
   (cache_hit b part_name sc \<longrightarrow> retrieve_part h b part_name sc = Inl (UnboundLocalError ''item''))"
proof (intro conjI impI)
  assume "reachable b"
  then show "\<not> cache_hit b part_name sc" by (simp add: reachable_cache_empty)
next
  assume "reachable b"
  then have "part_cache b = []" by (rule reachable_cache_empty)
  from retrieve_part_result [OF this, of h part_name sc]
  show "\<exists>sc1. retrieve_part h b part_name sc = Inr (length sc, sc1) \<and> length sc < length sc1 \<and>
         made_by (sc1 ! length sc) =
           (let obj_path = (case get_obj_path b part_name of None \<Rightarrow> [] | Some p \<Rightarrow> p)
            in if isfile h obj_path then Imported obj_path else Cube)"
    by blast
next
  assume "cache_hit b part_name sc"
  then show "retrieve_part h b part_name sc = Inl (UnboundLocalError ''item'')"
    by (auto simp: retrieve_part_def cache_hit_def split: option.splits)
qed

theorem retrieve_part_never_duplicates_witness:
  "reachable (clear_cache no_catalogue) \<and>
   (\<exists>sc1. retrieve_part bare_env (clear_cache no_catalogue) ''BASE_FLAG'' [] = Inr (0, sc1) \<and>
      made_by (sc1 ! 0) = Cube) \<and>
   cache_hit cached_builder ''BASE_FLAG'' [built_flag] \<and>
   retrieve_part bare_env cached_builder ''BASE_FLAG'' [built_flag] = Inl (UnboundLocalError ''item'')"
proof -
  have r: "reachable (clear_cache no_catalogue)"
    unfolding no_catalogue_def by (intro reachable.intros)
  have c: "cache_hit cached_builder ''BASE_FLAG'' [built_flag]"
    by (simp add: cache_hit_def cached_builder_def built_flag_def)
  have g: "get_obj_path (clear_cache no_catalogue) ''BASE_FLAG'' = None"
    by (simp add: get_obj_path_def clear_cache_def)
  from retrieve_part_never_duplicates [of "clear_cache no_catalogue" "''BASE_FLAG''" "[]" bare_env]
       retrieve_part_never_duplicates [of cached_builder "''BASE_FLAG''" "[built_flag]" bare_env]
  show ?thesis
    using r c by (auto simp: g)
qed

text \<open>
  A cache entry whose object has been removed from the scene makes the call fail earlier,
  on reading the name of the removed object.
\<close>

lemma retrieve_part_dead_reference:
  "map_of (part_cache b) part_name = Some None \<Longrightarrow>
   retrieve_part h b part_name sc = Inl (ReferenceError ''name'')"
  by (simp add: retrieve_part_def)

subsection \<open>Claims about \<open>__init__.py\<close>\<close>

lemma select_nms_item_props [simp]: "props (select_nms_item ob) = props ob"
  by (simp add: select_nms_item_def select_set_def Let_def)

lemma select_nms_item_select:
  "select (select_nms_item ob) =
     (select ob \<or>
      ((has_key (props ob) ''ObjectID'' \<or> has_key (props ob) ''PresetID'') \<and> \<not> hide ob) \<or>
      has_key (props ob) ''NMS_LIGHT'' \<or> has_key (props ob) ''base_builder_item'')"
  by (simp add: select_nms_item_def select_set_def Let_def)

lemma select_nms_item_kept:
  "\<not> has_key (props ob) ''NMS_LIGHT'' \<Longrightarrow> \<not> has_key (props ob) ''base_builder_item'' \<Longrightarrow>
   select_nms_item ob =
     (if has_key (props ob) ''ObjectID'' \<or> has_key (props ob) ''PresetID''
      then (if hide ob then ob\<lparr>hide_select := False\<rparr>
            else ob\<lparr>hide_select := False, select := True\<rparr>)
      else ob)"
  by (simp add: select_nms_item_def select_set_def Let_def)

lemma sweep:
  "filter (\<lambda>x. \<not> select x) (map select_nms_item (map (\<lambda>x. x\<lparr>select := False\<rparr>) sc)) =
     map (\<lambda>x. if has_key (props x) ''ObjectID'' \<or> has_key (props x) ''PresetID''
              then x\<lparr>select := False, hide_select := False\<rparr> else x\<lparr>select := False\<rparr>)
       (filter (\<lambda>x. \<not> has_key (props x) ''NMS_LIGHT'' \<and> \<not> has_key (props x) ''base_builder_item'' \<and>
                    (hide x \<or> (\<not> has_key (props x) ''ObjectID'' \<and> \<not> has_key (props x) ''PresetID'')))
          sc)"
proof (induction sc)
  case Nil
  show ?case by simp
next
  case (Cons x xs)
  show ?case
  proof (cases "has_key (props x) ''NMS_LIGHT'' \<or> has_key (props x) ''base_builder_item''")
    case True
    then have "select (select_nms_item (x\<lparr>select := False\<rparr>))"
      by (simp add: select_nms_item_select)
    with True Cons.IH show ?thesis by auto
  next
    case False
    then have k: "select_nms_item (x\<lparr>select := False\<rparr>) =
       (if has_key (props x) ''ObjectID'' \<or> has_key (props x) ''PresetID''
        then (if hide x then x\<lparr>select := False, hide_select := False\<rparr>
              else x\<lparr>hide_select := False, select := True\<rparr>)
        else x\<lparr>select := False\<rparr>)"
      by (simp add: select_nms_item_kept)
    from False Cons.IH show ?thesis by (simp add: k)
  qed
qed

lemma new_file_objects:
  "objects (new_file st) =
     map (\<lambda>x. if has_key (props x) ''ObjectID'' \<or> has_key (props x) ''PresetID''
              then x\<lparr>select := False, hide_select := False\<rparr> else x\<lparr>select := False\<rparr>)
       (filter (\<lambda>x. \<not> has_key (props x) ''NMS_LIGHT'' \<and> \<not> has_key (props x) ''base_builder_item'' \<and>
                    (hide x \<or> (\<not> has_key (props x) ''ObjectID'' \<and> \<not> has_key (props x) ''PresetID'')))
          (objects st))"
  using sweep [of "objects st"]
  by (simp add: new_file_def Let_def delete_selected_def select_all_deselect_def)

lemma new_file_removes_tagged:
  "ob \<in> set (objects (new_file st)) \<Longrightarrow>
   \<not> has_key (props ob) ''NMS_LIGHT'' \<and> \<not> has_key (props ob) ''base_builder_item'' \<and>
   (hide ob \<or> (\<not> has_key (props ob) ''ObjectID'' \<and> \<not> has_key (props ob) ''PresetID''))"
  by (auto simp: new_file_objects)

text \<open>
  An object that is hidden in the viewport and carries \<open>ObjectID\<close> is not deleted either:
  \<open>new_file\<close> shows again only the lights and the generic items before selecting them.
\<close>

lemma new_file_keeps_hidden:
  "ob \<in> set (objects st) \<Longrightarrow> hide ob \<Longrightarrow> has_key (props ob) ''ObjectID'' \<Longrightarrow>
   \<not> has_key (props ob) ''NMS_LIGHT'' \<Longrightarrow> \<not> has_key (props ob) ''base_builder_item'' \<Longrightarrow>
   ob\<lparr>select := False, hide_select := False\<rparr> \<in> set (objects (new_file st))"
  by (force simp: new_file_objects)

lemma new_file_fields:
  "self (new_file st) = blank_settings"
  by (simp add: new_file_def Let_def reset_fields_def blank_settings_def)

text \<open>
  C3 fails on the code. \<open>new_file\<close> resets every Base Record field to its default (lemma
  \<open>new_file_fields\<close>) and removes the objects carrying \<open>NMS_LIGHT\<close> or \<open>base_builder_item\<close>
  and the visible objects carrying \<open>ObjectID\<close> or \<open>PresetID\<close> (lemma
  \<open>new_file_removes_tagged\<close>), but the part builder tags its parts with \<open>objectID\<close>: the
  part that \<open>build_item\<close> creates is still in the scene after \<open>new_file\<close>, with its part
  tag.
\<close>

theorem new_file_keeps_built_part:
  "build_item_default bare_env no_catalogue ''BASE_FLAG'' [] = Inr (0, [built_flag]) \<and>
   has_key (props built_flag) ''objectID'' \<and>
   objects (new_file \<lparr> self = blank_settings, objects = [built_flag], part_order = None \<rparr>) =
     [built_flag\<lparr>select := False\<rparr>]"
proof -
  have "props built_flag = [(''objectID'', PStr ''BASE_FLAG''), (''Timestamp'', PInt 1539023700),
                (''belongs_to_preset'', PBool False)]"
    by (simp add: built_flag_def)
  then show ?thesis
    by (simp add: build_flag_run new_file_objects has_key_def)
qed

text \<open>
  C5. Whatever the Base Record holds and whether or not presets are captured, the document
  \<open>generate_data\<close> returns has \<open>BaseVersion\<close> 4, \<open>UserData\<close> 0, an empty \<open>RID\<close> and the
  fixed \<open>BaseType\<close>; \<open>GalacticAddress\<close>, \<open>LastUpdateTimestamp\<close> and the owner's \<open>TS\<close> are
  integers exactly when the stored text parses as an integer and the text itself otherwise;
  and it has a \<open>Presets\<close> key exactly when presets are captured. The lists of serialised
  parts and presets are what the two serialisers return.
\<close>

theorem generate_data_document:
  assumes "part_data = Inr parts_list"
    and "capture_presets \<Longrightarrow> preset_data = Inr presets"
  shows "\<exists>d owner. generate_data s capture_presets part_data preset_data = Inr d \<and>
           map_of d ''BaseVersion'' = Some (PInt 4) \<and>
           map_of d ''UserData'' = Some (PInt 0) \<and>
           map_of d ''RID'' = Some (PStr []) \<and>
           map_of d ''BaseType'' = Some (PDict [(''PersistentBaseTypes'', PStr ''HomePlanetBase'')]) \<and>
           map_of d ''GalacticAddress'' =
             Some (case int_of_str (string_address s) of
                     Some i \<Rightarrow> PInt i | None \<Rightarrow> PStr (string_address s)) \<and>
           map_of d ''LastUpdateTimestamp'' =
             Some (case int_of_str (string_last_ts s) of
                     Some i \<Rightarrow> PInt i | None \<Rightarrow> PStr (string_last_ts s)) \<and>
           map_of d ''Owner'' = Some (PDict owner) \<and>
           map_of owner ''TS'' =
             Some (case int_of_str (string_ts s) of
                     Some i \<Rightarrow> PInt i | None \<Rightarrow> PStr (string_ts s)) \<and>
           map_of d ''Objects'' = Some (PList parts_list) \<and>
           has_key d ''Presets'' = capture_presets"
  using assms
  by (cases capture_presets)
     (simp_all add: generate_data_def Let_def setitem_def int_or_text_def has_key_def)

text \<open>
  With the address \<open>42\<close> after a blank, the owner timestamp \<open>abc\<close> and the update timestamp
  \<open>42\<close> after the separator 28: the address is the integer 42, the two timestamps stay
  text.
\<close>

theorem generate_data_document_witness:
  "\<exists>d owner. generate_data sample_settings True (Inr []) (Inr []) = Inr d \<and>
     map_of d ''BaseVersion'' = Some (PInt 4) \<and>
     map_of d ''GalacticAddress'' = Some (PInt 42) \<and>
     map_of d ''LastUpdateTimestamp'' = Some (PStr [CHR 0x1C, CHR ''4'', CHR ''2'']) \<and>
     map_of d ''Owner'' = Some (PDict owner) \<and> map_of owner ''TS'' = Some (PStr ''abc'') \<and>
     has_key d ''Presets''"
proof -
  have f: "string_address sample_settings = '' 42''" "string_ts sample_settings = ''abc''"
    "string_last_ts sample_settings = [CHR 0x1C, CHR ''4'', CHR ''2'']"
    by (simp_all add: sample_settings_def blank_settings_def)
  have a: "(Inr [] :: error + pyval list) = Inr []" by simp
  have b: "True \<Longrightarrow> (Inr [] :: error + pyval list) = Inr []" by simp
  from generate_data_document [OF a b, where s = sample_settings]
  show ?thesis by (simp add: f int_of_str_samples) blast
qed

lemma generate_data_passes_errors:
  "generate_data s capture_presets (Inl e) preset_data = Inl e"
  "generate_data s True (Inr parts_list) (Inl e) = Inl e"
  by (simp_all add: generate_data_def Let_def)

subsection \<open>Claim about \<open>messagemodule.py\<close>\<close>

text \<open>
  C8. Serialising a message-bearing part yields the dictionary of the base class with a
  \<open>Message\<close> field equal to the stored message, or to the empty text if none was set;
  \<open>deserialise_from_data\<close> delegates to the base class and then sets the message of the
  part it got from the \<open>Message\<close> field of the data, or to the empty text if the field is
  absent.
\<close>

theorem message_override:
  assumes "base_serialise ob = Inr data" and "base_deserialise doc = Inr part"
  shows "\<exists>d p. serialise base_serialise ob = Inr d \<and>
           map_of d ''Message'' = Some (message ob) \<and>
           (\<forall>k. k \<noteq> ''Message'' \<longrightarrow> map_of d k = map_of data k) \<and>
           message ob = (case map_of (props ob) ''Message'' of None \<Rightarrow> PStr [] | Some m \<Rightarrow> m) \<and>
           deserialise_from_data str base_deserialise doc = Inr p \<and>
           p = part\<lparr>props := setitem (props part) ''Message'' (message p)\<rparr> \<and>
           message p =
             PStr (py_str str (case map_of doc ''Message'' of None \<Rightarrow> PStr [] | Some v \<Rightarrow> v))"
  using assms
  by (simp add: serialise_def deserialise_from_data_def message_def set_message_def set_prop_def
        get_default_def setitem_def AList.update_conv')

theorem message_override_witness:
  "\<exists>d p. serialise plain_serialise built_flag = Inr d \<and>
     map_of d ''Message'' = Some (PStr []) \<and>
     map_of d ''UserData'' = Some (PInt 0) \<and>
     deserialise_from_data (\<lambda>v. []) plain_deserialise [(''Message'', PStr ''hello'')] = Inr p \<and>
     message p = PStr ''hello''"
proof -
  have a: "plain_serialise built_flag = Inr [(''ObjectID'', PStr ''^MESSAGEMODULE''), (''UserData'', PInt 0)]"
    by (simp add: plain_serialise_def)
  have b: "plain_deserialise [(''Message'', PStr ''hello'')] = Inr built_flag"
    by (simp add: plain_deserialise_def)
  have m: "map_of (props built_flag) ''Message'' = None" by (simp add: built_flag_def)
  from message_override [where base_serialise = plain_serialise and ob = built_flag
         and data = "[(''ObjectID'', PStr ''^MESSAGEMODULE''), (''UserData'', PInt 0)]"
         and base_deserialise = plain_deserialise and doc = "[(''Message'', PStr ''hello'')]"
         and part = built_flag and str = "\<lambda>v. []", OF a b]
  obtain d p where
    "serialise plain_serialise built_flag = Inr d" "map_of d ''Message'' = Some (message built_flag)"
    "\<forall>k. k \<noteq> ''Message'' \<longrightarrow> map_of d k = map_of [(''ObjectID'', PStr ''^MESSAGEMODULE''), (''UserData'', PInt 0)] k"
    "message built_flag = (case map_of (props built_flag) ''Message'' of None \<Rightarrow> PStr [] | Some m \<Rightarrow> m)"
    "deserialise_from_data (\<lambda>v. []) plain_deserialise [(''Message'', PStr ''hello'')] = Inr p"
    "message p = PStr (py_str (\<lambda>v. []) (case map_of [(''Message'', PStr ''hello'')] ''Message'' of None \<Rightarrow> PStr [] | Some v \<Rightarrow> v))"
    by blast
  then show ?thesis by (auto simp: m)
qed


subsection \<open>Claims about \<open>snap.py\<close>\<close>

lemma select_only_length [simp]: "length (select_only refs sc) = length sc"
  by (simp add: select_only_def)

lemma select_only_nth [simp]:
  "i < length sc \<Longrightarrow> select_only refs sc ! i = (sc ! i)\<lparr>select := (i \<in> set refs)\<rparr>"
  by (simp add: select_only_def)

lemma no_pairing:
  assumes "\<And>tg sg d. get_snap_group_from_part sn target_id = Some tg \<Longrightarrow>
             get_snap_group_from_part sn source_id = Some sg \<Longrightarrow>
             map_of (snap_pair_dictionary sn) tg = Some d \<Longrightarrow> map_of d sg = None"
  shows "get_snap_pair_options sn target_id source_id = None"
  using assms
  by (auto simp: get_snap_pair_options_def Let_def split: option.splits)

lemma baseline_move:
  assumes "source < length sc" "target < length sc"
  shows "matrix_world (select_only [source]
           (modify source (\<lambda>x. x\<lparr>matrix_world := matrix_world (sc ! target)\<rparr>) sc) ! source) =
         matrix_world (sc ! target)"
    and "matrix_world (select_only [source]
           (modify source (\<lambda>x. x\<lparr>matrix_world := matrix_world (sc ! target)\<rparr>) sc) ! target) =
         matrix_world (sc ! target)"
    and "props (select_only [source]
           (modify source (\<lambda>x. x\<lparr>matrix_world := matrix_world (sc ! target)\<rparr>) sc) ! target) =
         props (sc ! target)"
    and "props (select_only [source]
           (modify source (\<lambda>x. x\<lparr>matrix_world := matrix_world (sc ! target)\<rparr>) sc) ! source) =
         props (sc ! source)"
    and "name (select_only [source]
           (modify source (\<lambda>x. x\<lparr>matrix_world := matrix_world (sc ! target)\<rparr>) sc) ! target) =
         name (sc ! target)"
    and "name (select_only [source]
           (modify source (\<lambda>x. x\<lparr>matrix_world := matrix_world (sc ! target)\<rparr>) sc) ! source) =
         name (sc ! source)"
  using assms
  by (cases "target = source"; simp)+

text \<open>
  C6. For every source and target that both carry a \<open>SnapID\<close> tag, the target not being a
  preset (a target carrying \<open>PresetID\<close> is dealt with before the tags are looked at),
  where the pair of the target's group and the source's group has no entry in the
  snap-pairing catalogue, \<open>snap_objects\<close> returns \<open>False\<close> and leaves the source at the
  baseline: after the call the world transform of the source is that of the target. The
  cache is unchanged.
\<close>

theorem snap_objects_without_pairing:
  assumes "source < length sc" and "target < length sc"
    and "map_of (props (sc ! source)) ''SnapID'' = Some source_id"
    and "map_of (props (sc ! target)) ''SnapID'' = Some target_id"
    and "\<not> has_key (props (sc ! target)) ''PresetID''"
    and "\<forall>tg sg d. get_snap_group_from_part sn target_id = Some tg \<longrightarrow>
             get_snap_group_from_part sn source_id = Some sg \<longrightarrow>
             map_of (snap_pair_dictionary sn) tg = Some d \<longrightarrow> map_of d sg = None"
  shows "\<exists>sc1. snap_objects h sn sc source target next_source prev_source next_target prev_target =
                  Inr (PBool False, sc1, sn) \<and>
               length sc1 = length sc \<and>
               matrix_world (sc1 ! source) = matrix_world (sc ! target) \<and>
               matrix_world (sc1 ! target) = matrix_world (sc ! target)"
proof -
  define sc1 where "sc1 = select_only [source]
           (modify source (\<lambda>x. x\<lparr>matrix_world := matrix_world (sc ! target)\<rparr>) sc)"
  have pn: "get_snap_pair_options sn target_id source_id = None"
  proof (rule no_pairing)
    fix tg sg d
    assume "get_snap_group_from_part sn target_id = Some tg"
      "get_snap_group_from_part sn source_id = Some sg"
      "map_of (snap_pair_dictionary sn) tg = Some d"
    then show "map_of d sg = None" using assms(6) by blast
  qed
  have ids: "get_default (props (sc1 ! target)) ''SnapID'' PNone = target_id"
            "get_default (props (sc1 ! source)) ''SnapID'' PNone = source_id"
    using assms(3,4) baseline_move(3,4) [OF assms(1,2)]
    by (simp_all add: sc1_def get_default_def)
  have keys: "has_key (props (sc ! source)) ''SnapID''" "has_key (props (sc ! target)) ''SnapID''"
    using assms(3,4) by (simp_all add: has_key_def)
  have "snap_objects h sn sc source target next_source prev_source next_target prev_target =
          Inr (PBool False, sc1, sn)"
    unfolding snap_objects_def Let_def sc1_def [symmetric]
    using assms(1,2,5) keys by (simp add: ids pn)
  moreover have "length sc1 = length sc" by (simp add: sc1_def)
  moreover have "matrix_world (sc1 ! source) = matrix_world (sc ! target)"
    "matrix_world (sc1 ! target) = matrix_world (sc ! target)"
    using baseline_move(1,2) [OF assms(1,2)] by (simp_all add: sc1_def)
  ultimately show ?thesis by blast
qed


lemma wall_groups:
  "get_snap_group_from_part unpaired_snapper (PStr ''A'') = Some ''WALL''"
  "get_snap_group_from_part unpaired_snapper (PStr ''B'') = Some ''WALL''"
  "get_snap_group_from_part wall_snapper (PStr ''A'') = Some ''WALL''"
  "get_snap_group_from_part wall_snapper (PStr ''B'') = Some ''WALL''"
  by (simp_all add: get_snap_group_from_part_def unpaired_snapper_def wall_snapper_def)

theorem snap_objects_without_pairing_witness:
  "map_of (props ([part_A, part_B] ! 0)) ''SnapID'' = Some (PStr ''A'') \<and>
   map_of (props ([part_A, part_B] ! 1)) ''SnapID'' = Some (PStr ''B'') \<and>
   \<not> has_key (props ([part_A, part_B] ! 1)) ''PresetID'' \<and>
   get_snap_group_from_part unpaired_snapper (PStr ''B'') = Some ''WALL'' \<and>
   get_snap_group_from_part unpaired_snapper (PStr ''A'') = Some ''WALL'' \<and>
   map_of (snap_pair_dictionary unpaired_snapper) ''WALL'' = None \<and>
   (\<exists>sc1. snap_objects bare_env unpaired_snapper [part_A, part_B] 0 1 False False False False =
            Inr (PBool False, sc1, unpaired_snapper) \<and>
          matrix_world (sc1 ! 0) = translated (4, 5, 6) \<and>
          matrix_world (sc1 ! 1) = translated (4, 5, 6))"
proof -
  have a: "(0::nat) < length [part_A, part_B]" "(1::nat) < length [part_A, part_B]" by simp_all
  have b: "map_of (props ([part_A, part_B] ! 0)) ''SnapID'' = Some (PStr ''A'')"
          "map_of (props ([part_A, part_B] ! 1)) ''SnapID'' = Some (PStr ''B'')"
    by (simp_all add: part_A_def part_B_def set_prop_def setitem_def fresh_object_def)
  have c: "\<not> has_key (props ([part_A, part_B] ! 1)) ''PresetID''"
    by (simp add: part_B_def set_prop_def setitem_def fresh_object_def has_key_def)
  have d: "map_of (snap_pair_dictionary unpaired_snapper) ''WALL'' = None"
    by (simp add: unpaired_snapper_def)
  have e: "\<forall>tg sg d. get_snap_group_from_part unpaired_snapper (PStr ''B'') = Some tg \<longrightarrow>
             get_snap_group_from_part unpaired_snapper (PStr ''A'') = Some sg \<longrightarrow>
             map_of (snap_pair_dictionary unpaired_snapper) tg = Some d \<longrightarrow> map_of d sg = None"
    by (simp add: unpaired_snapper_def)
  have m: "matrix_world ([part_A, part_B] ! 1) = translated (4, 5, 6)"
    by (simp add: part_B_def set_prop_def fresh_object_def)
  from snap_objects_without_pairing [OF a b c e, where h = bare_env and next_source = False
         and prev_source = False and next_target = False and prev_target = False]
  show ?thesis
    using b c d wall_groups(1,2) unfolding m by blast
qed

text \<open>Splitting a text always gives at least one part, so a pairing has a first option.\<close>

lemma split_on_nonempty: "split_on sep s \<noteq> []"
  by (induction s) (simp_all split: list.splits)

lemma pairing_options_nonempty: "pairing_options s \<noteq> []"
  by (simp add: pairing_options_def split_on_nonempty)

lemma resolve_target_key_returns:
  assumes "tpoints \<noteq> []"
  shows "\<exists>tk. resolve_target_key (pairing_options target_text) tref (Some tpoints) next_target prev_target
           = Inr (Some tk)"
proof -
  obtain k ks where "pairing_options target_text = k # ks"
    using pairing_options_nonempty [of target_text] by (cases "pairing_options target_text") auto
  then show ?thesis using assms by (simp add: resolve_target_key_def Let_def)
qed

lemma resolve_source_key_cases:
  assumes "spoints \<noteq> []"
    and "source_pairing_options = first_option # more_options"
    and "source_id = target_id \<longrightarrow> map_of tpoints tk \<noteq> None"
  shows "resolve_source_key source_pairing_options source_item_snap_reference
           (Some spoints) (Some tpoints) (Some tk) source_id target_id
           next_source prev_source next_target prev_target =
         (let opp = (case map_of tpoints tk of
                       Some p \<Rightarrow> (case opposite p of None \<Rightarrow> first_option | Some k \<Rightarrow> k)
                     | None \<Rightarrow> first_option);
              dflt = (if source_id = target_id then opp else first_option);
              key = (if source_id = target_id \<and> (prev_target \<or> next_target) then opp
                     else (case map_of source_item_snap_reference ''source'' of
                             Some (Some k) \<Rightarrow> if k \<in> set source_pairing_options then k else dflt
                           | _ \<Rightarrow> dflt));
              key1 = (if next_source
                      then get_adjacent_dict_key source_pairing_options key True else key);
              key2 = (if prev_source
                      then get_adjacent_dict_key source_pairing_options key1 False else key1)
          in Inr (Some key2))"
proof (cases "source_id = target_id")
  case True
  with assms(3) obtain p where t: "map_of tpoints tk = Some p" by auto
  show ?thesis
    using assms(1,2) True
    by (simp add: resolve_source_key_def opposite_of_def t Let_def
          split: option.splits)
next
  case False
  show ?thesis
    using assms(1,2) False
    by (simp add: resolve_source_key_def Let_def split: option.splits)
qed

lemma resolve_source_key_undeclared:
  assumes "spoints \<noteq> []"
    and "map_of tpoints tk = None"
  shows "resolve_source_key (pairing_options source_text) source_item_snap_reference
           (Some spoints) (Some tpoints) (Some tk) target_id target_id
           next_source prev_source next_target prev_target = Inl (KeyError tk)"
proof -
  obtain k ks where "pairing_options source_text = k # ks"
    using pairing_options_nonempty [of source_text] by (cases "pairing_options source_text") auto
  then show ?thesis
    using assms by (simp add: resolve_source_key_def opposite_of_def)
qed

text \<open>
  C7, as amended. In \<open>snap_objects\<close>, for a target that is no preset, when both parts carry
  a \<open>SnapID\<close>, the pairing catalogue has an entry of at least two option strings for their
  groups and both groups declare snap points, the target key is resolved first (the cached
  or the default key, then stepped). If source and target carry the same \<open>SnapID\<close> and the
  target key names no declared point of the group, the call raises \<open>KeyError\<close>. Otherwise,
  whenever source and target carry the same \<open>SnapID\<close> and a next-target or prev-target step
  was requested, the source key is the opposite declared by the newly resolved target
  point, or the pairing's first listed source option when the point declares none; in every
  other case it is the cached source key if that is among the pairing's source options and
  else the default, which is that same opposite for equal \<open>SnapID\<close>s and the first listed
  option otherwise. In both cases a requested next or previous source step is then applied,
  and the snap is computed with the two keys.
\<close>

theorem snap_objects_source_key:
  assumes "source < length sc" and "target < length sc"
    and "\<not> has_key (props (sc ! target)) ''PresetID''"
    and "map_of (props (sc ! source)) ''SnapID'' = Some source_id"
    and "map_of (props (sc ! target)) ''SnapID'' = Some target_id"
    and "get_snap_pair_options sn target_id source_id = Some (target_text # source_text # other_texts)"
    and "get_snap_matrices_from_group sn (get_snap_group_from_part sn target_id) = Some tpoints"
    and "tpoints \<noteq> []"
    and "get_snap_matrices_from_group sn (get_snap_group_from_part sn source_id) = Some spoints"
    and "spoints \<noteq> []"
  shows "\<exists>tk. resolve_target_key (pairing_options target_text)
                (case map_of (snap_cache sn) (name (sc ! target)) of None \<Rightarrow> [] | Some r \<Rightarrow> r)
                (Some tpoints) next_target prev_target = Inr (Some tk) \<and>
          snap_objects h sn sc source target next_source prev_source next_target prev_target =
            (if source_id = target_id \<and> map_of tpoints tk = None then Inl (KeyError tk)
             else
               let sc1 = select_only [source]
                           (modify source (\<lambda>x. x\<lparr>matrix_world := matrix_world (sc ! target)\<rparr>) sc);
                   source_pairing_options = pairing_options source_text;
                   first_option = hd source_pairing_options;
                   opp = (case map_of tpoints tk of
                            Some p \<Rightarrow> (case opposite p of None \<Rightarrow> first_option | Some k \<Rightarrow> k)
                          | None \<Rightarrow> first_option);
                   dflt = (if source_id = target_id then opp else first_option);
                   key = (if source_id = target_id \<and> (prev_target \<or> next_target) then opp
                          else (case map_of (case map_of (snap_cache sn) (name (sc ! source)) of
                                               None \<Rightarrow> [] | Some r \<Rightarrow> r) ''source'' of
                                  Some (Some k) \<Rightarrow> if k \<in> set source_pairing_options then k else dflt
                                | _ \<Rightarrow> dflt));
                   key1 = (if next_source
                           then get_adjacent_dict_key source_pairing_options key True else key);
                   sk = (if prev_source
                         then get_adjacent_dict_key source_pairing_options key1 False else key1)
               in if sk = [] \<or> tk = [] then Inr (PNone, sc1, sn)
                  else
                    bind (snap_location h (matrix_world (sc ! target)) (matrix_world (sc ! target))
                            (Some spoints) sk (Some tpoints) tk) (\<lambda>target_location.
                    Inr (PBool True,
                         select_only [target, source]
                           (modify source (\<lambda>x. x\<lparr>matrix_world := target_location\<rparr>) sc1),
                         sn\<lparr>snap_cache :=
                              update_snap_cache (snap_cache sn) (name (sc ! source)) (name (sc ! target))
                                sk (case map_of spoints sk of None \<Rightarrow> None | Some p \<Rightarrow> opposite p)
                                tk\<rparr>)))"
proof -
  define sc1 where "sc1 = select_only [source]
           (modify source (\<lambda>x. x\<lparr>matrix_world := matrix_world (sc ! target)\<rparr>) sc)"
  define tref where "tref = (case map_of (snap_cache sn) (name (sc ! target)) of None \<Rightarrow> [] | Some r \<Rightarrow> r)"
  define sref where "sref = (case map_of (snap_cache sn) (name (sc ! source)) of None \<Rightarrow> [] | Some r \<Rightarrow> r)"
  from resolve_target_key_returns [OF assms(8), of target_text tref next_target prev_target]
  obtain tk where tk: "resolve_target_key (pairing_options target_text) tref (Some tpoints)
                         next_target prev_target = Inr (Some tk)" by blast
  obtain first_option more_options where po: "pairing_options source_text = first_option # more_options"
    using pairing_options_nonempty [of source_text] by (cases "pairing_options source_text") auto
  have ids: "get_default (props (sc1 ! target)) ''SnapID'' PNone = target_id"
            "get_default (props (sc1 ! source)) ''SnapID'' PNone = source_id"
    using assms(4,5) baseline_move(3,4) [OF assms(1,2)]
    by (simp_all add: sc1_def get_default_def)
  have keys: "has_key (props (sc ! source)) ''SnapID''" "has_key (props (sc ! target)) ''SnapID''"
    using assms(4,5) by (simp_all add: has_key_def)
  have nm: "name (sc1 ! target) = name (sc ! target)" "name (sc1 ! source) = name (sc ! source)"
    using baseline_move(5,6) [OF assms(1,2)] by (simp_all add: sc1_def)
  have mw: "matrix_world (sc1 ! target) = matrix_world (sc ! target)"
           "matrix_world (sc1 ! source) = matrix_world (sc ! target)"
    using baseline_move(1,2) [OF assms(1,2)] by (simp_all add: sc1_def)
  have len: "source < length sc1" "target < length sc1" using assms(1,2) by (simp_all add: sc1_def)
  have nm2: "\<And>loc. name (modify source (\<lambda>x. x\<lparr>matrix_world := loc\<rparr>) sc1 ! source) = name (sc ! source)"
            "\<And>loc. name (modify source (\<lambda>x. x\<lparr>matrix_world := loc\<rparr>) sc1 ! target) = name (sc ! target)"
    using len nm by (cases "target = source"; simp)+
  have start: "snap_objects h sn sc source target next_source prev_source next_target prev_target =
          bind (resolve_source_key (pairing_options source_text) sref (Some spoints) (Some tpoints) (Some tk)
                  source_id target_id next_source prev_source next_target prev_target)
            (\<lambda>source_key.
               case source_key of
                 Some sk \<Rightarrow>
                   if sk = [] \<or> tk = [] then Inr (PNone, sc1, sn)
                   else
                     bind (snap_location h (matrix_world (sc ! target)) (matrix_world (sc ! target))
                             (Some spoints) sk (Some tpoints) tk) (\<lambda>target_location.
                     Inr (PBool True,
                          select_only [target, source]
                            (modify source (\<lambda>x. x\<lparr>matrix_world := target_location\<rparr>) sc1),
                          sn\<lparr>snap_cache :=
                               update_snap_cache (snap_cache sn) (name (sc ! source)) (name (sc ! target))
                                 sk (case map_of spoints sk of None \<Rightarrow> None | Some p \<Rightarrow> opposite p)
                                 tk\<rparr>))
               | None \<Rightarrow> Inr (PNone, sc1, sn))"
    unfolding snap_objects_def Let_def sc1_def [symmetric]
    using assms(1,2,3) keys
    by (simp add: ids assms(6,7,9) nm tref_def [symmetric] sref_def [symmetric] tk mw nm2
          cong: if_cong)
  show ?thesis
  proof (cases "source_id = target_id \<and> map_of tpoints tk = None")
    case True
    then have e: "source_id = target_id" "map_of tpoints tk = None" by simp_all
    from resolve_source_key_undeclared [OF assms(10) e(2), of source_text sref target_id]
    have "snap_objects h sn sc source target next_source prev_source next_target prev_target =
            Inl (KeyError tk)"
      by (simp add: start e(1))
    with tk True show ?thesis
      unfolding tref_def by (intro exI [of _ tk]) simp
  next
    case False
    then have c: "source_id = target_id \<longrightarrow> map_of tpoints tk \<noteq> None" by simp
    from resolve_source_key_cases [OF assms(10) po c, of sref]
    have r: "resolve_source_key (pairing_options source_text) sref (Some spoints) (Some tpoints) (Some tk)
                  source_id target_id next_source prev_source next_target prev_target =
         (let opp = (case map_of tpoints tk of
                       Some p \<Rightarrow> (case opposite p of None \<Rightarrow> first_option | Some k \<Rightarrow> k)
                     | None \<Rightarrow> first_option);
              dflt = (if source_id = target_id then opp else first_option);
              key = (if source_id = target_id \<and> (prev_target \<or> next_target) then opp
                     else (case map_of sref ''source'' of
                             Some (Some k) \<Rightarrow> if k \<in> set (pairing_options source_text) then k else dflt
                           | _ \<Rightarrow> dflt));
              key1 = (if next_source
                      then get_adjacent_dict_key (pairing_options source_text) key True else key);
              key2 = (if prev_source
                      then get_adjacent_dict_key (pairing_options source_text) key1 False else key1)
          in Inr (Some key2))"
      by (simp add: po)
    have h: "hd (pairing_options source_text) = first_option" by (simp add: po)
    show ?thesis
      apply (intro exI [of _ tk] conjI)
       apply (simp add: tk [unfolded tref_def])
      apply (simp only: start r Let_def h False if_False sc1_def [symmetric] sref_def [symmetric] bind_simps option.case)
      done
  qed
qed

lemma adjacent_samples:
  "get_adjacent_dict_key [''a'', ''b'', ''c''] ''c'' True = ''a''"
  "get_adjacent_dict_key [''a'', ''b'', ''c''] ''a'' False = ''c''"
  "get_adjacent_dict_key [''a'', ''b'', ''c''] ''z'' True = ''z''"
  "get_adjacent_dict_key [''P1'', ''P2''] ''P1'' True = ''P2''"
  by (simp_all add: get_adjacent_dict_key_def)

lemma pairing_options_samples:
  "pairing_options ''P1, P2'' = [''P1'', ''P2'']" "pairing_options ''P2, P1'' = [''P2'', ''P1'']"
  by (simp_all add: pairing_options_def strip_def is_space_def)

text \<open>
  C7 as stated fails for two different parts of one snap group: with a next-target step the
  target key becomes \<open>P2\<close>, whose opposite is \<open>P1\<close>, but the source key is the default
  \<open>P2\<close>, because the code compares the \<open>SnapID\<close>s and not the groups.
\<close>

theorem resolve_source_key_counterexample:
  "get_snap_group_from_part wall_snapper (PStr ''A'') =
     get_snap_group_from_part wall_snapper (PStr ''B'') \<and>
   get_snap_pair_options wall_snapper (PStr ''B'') (PStr ''A'') = Some [''P1, P2'', ''P2, P1''] \<and>
   resolve_target_key (pairing_options ''P1, P2'') [] (Some wall_points) True False =
     Inr (Some ''P2'') \<and>
   opposite_of (Some wall_points) (Some ''P2'') ''P2'' = Inr ''P1'' \<and>
   resolve_source_key (pairing_options ''P2, P1'') [] (Some wall_points) (Some wall_points)
     (Some ''P2'') (PStr ''A'') (PStr ''B'') False False True False = Inr (Some ''P2'')"
  by (simp add: wall_groups pairing_options_samples adjacent_samples get_snap_pair_options_def
        falsy_name_def resolve_target_key_def resolve_source_key_def opposite_of_def)
     (simp add: wall_snapper_def wall_points_def)

subsection \<open>Complete snaps\<close>

lemma half_turn [simp]: "cos (radians 180) = - 1" "sin (radians 180) = 0"
  by (simp_all add: radians_def)

lemma invert_samples:
  "invert mirror_env identity4 = Inr identity4"
  "invert mirror_env (Rotation (radians 180) Y) = Inr (Rotation (radians 180) Y)"
  by (simp_all add: invert_def mirror_env_def identity4_def row_times_def)

lemma mat_mul_identity [simp]: "mat_mul identity4 m = m" "mat_mul m identity4 = m"
proof -
  obtain r0 r1 r2 r3 where M: "m = Mat4 r0 r1 r2 r3" by (cases m)
  obtain a0 a1 a2 a3 where r0: "r0 = Vec4 a0 a1 a2 a3" by (cases r0)
  obtain b0 b1 b2 b3 where r1: "r1 = Vec4 b0 b1 b2 b3" by (cases r1)
  obtain c0 c1 c2 c3 where r2: "r2 = Vec4 c0 c1 c2 c3" by (cases r2)
  obtain d0 d1 d2 d3 where r3: "r3 = Vec4 d0 d1 d2 d3" by (cases r3)
  show "mat_mul identity4 m = m" "mat_mul m identity4 = m"
    by (simp_all add: M r0 r1 r2 r3 row_times_def identity4_def)
qed

lemma snap_location_sample:
  "snap_location mirror_env identity4 identity4 (Some wall_points) ''P2'' (Some wall_points) ''P2''
     = Inr (Rotation (radians 180) Y)"
  "snap_location mirror_env identity4 identity4 (Some wall_points) ''P1'' (Some wall_points) ''P2''
     = Inr (Rotation (radians 180) Y)"
  by (simp_all add: snap_location_def point_matrix_def wall_points_def invert_samples Let_def
           del: Rotation.simps)

lemma wall_fields:
  "props wall_A = [(''SnapID'', PStr ''A'')]" "props wall_B = [(''SnapID'', PStr ''B'')]"
  "props second_A = [(''SnapID'', PStr ''A'')]"
  "name wall_A = ''A''" "name wall_B = ''B''" "name second_A = ''A2''"
  "matrix_world wall_A = identity4" "matrix_world wall_B = identity4"
  "matrix_world second_A = identity4"
  by (simp_all add: wall_A_def wall_B_def second_A_def set_prop_def setitem_def fresh_object_def)

lemma select_only_two:
  "select_only refs [x, y] = [x\<lparr>select := (0 \<in> set refs)\<rparr>, y\<lparr>select := (1 \<in> set refs)\<rparr>]"
  by (simp add: select_only_def upt_rec)

lemma wall_pairings:
  "get_snap_pair_options wall_snapper (PStr ''A'') (PStr ''A'') = Some [''P1, P2'', ''P2, P1'']"
  "get_snap_pair_options wall_snapper (PStr ''B'') (PStr ''A'') = Some [''P1, P2'', ''P2, P1'']"
  by (simp_all add: get_snap_pair_options_def wall_groups falsy_name_def)
     (simp_all add: wall_snapper_def)

lemma wall_matrices:
  "get_snap_matrices_from_group wall_snapper (get_snap_group_from_part wall_snapper (PStr ''A''))
     = Some wall_points"
  "get_snap_matrices_from_group wall_snapper (get_snap_group_from_part wall_snapper (PStr ''B''))
     = Some wall_points"
  by (simp_all add: wall_groups get_snap_matrices_from_group_def)
     (simp_all add: wall_snapper_def)

lemma wall_catalogue:
  "snap_cache wall_snapper = []"
  "wall_points \<noteq> []"
  "map_of wall_points ''P1'' = Some \<lparr> matrix = identity4, opposite = Some ''P2'' \<rparr>"
  "map_of wall_points ''P2'' = Some \<lparr> matrix = identity4, opposite = Some ''P1'' \<rparr>"
  by (simp_all add: wall_snapper_def wall_points_def)

lemma wall_target_key:
  "resolve_target_key (pairing_options ''P1, P2'') [] (Some wall_points) True False = Inr (Some ''P2'')"
  "resolve_target_key [''P1'', ''P2''] [] (Some wall_points) True False = Inr (Some ''P2'')"
  by (simp_all add: resolve_target_key_def pairing_options_samples adjacent_samples wall_catalogue)

text \<open>
  Two runs with a next-target step on parts of the wall group at the origin. A second part
  \<open>A\<close> as target: the target key becomes \<open>P2\<close> and the source key its opposite \<open>P1\<close>.
  A part \<open>B\<close> as target: the target key becomes \<open>P2\<close> and the source key is the default
  \<open>P2\<close>. In both the source is placed by the half turn about Y, and the cache records the
  keys.
\<close>

theorem snap_objects_source_key_witness:
  "map_of (props ([wall_A, second_A] ! 0)) ''SnapID'' = Some (PStr ''A'') \<and>
   map_of (props ([wall_A, second_A] ! 1)) ''SnapID'' = Some (PStr ''A'') \<and>
   \<not> has_key (props ([wall_A, second_A] ! 1)) ''PresetID'' \<and>
   get_snap_pair_options wall_snapper (PStr ''A'') (PStr ''A'') = Some [''P1, P2'', ''P2, P1''] \<and>
   get_snap_matrices_from_group wall_snapper (get_snap_group_from_part wall_snapper (PStr ''A''))
     = Some wall_points \<and>
   wall_points \<noteq> [] \<and>
   resolve_target_key (pairing_options ''P1, P2'') [] (Some wall_points) True False
     = Inr (Some ''P2'') \<and>
   map_of wall_points ''P2'' = Some \<lparr> matrix = identity4, opposite = Some ''P1'' \<rparr> \<and>
   snap_objects mirror_env wall_snapper [wall_A, second_A] 0 1 False False True False =
     Inr (PBool True,
          [wall_A\<lparr>select := True, matrix_world := Rotation (radians 180) Y\<rparr>,
           second_A\<lparr>select := True\<rparr>],
          wall_snapper\<lparr>snap_cache :=
            [(''A'', [(''source'', Some ''P1''), (''target'', Some ''P2'')]),
             (''A2'', [(''target'', Some ''P2'')])]\<rparr>) \<and>
   snap_objects mirror_env wall_snapper [wall_A, wall_B] 0 1 False False True False =
     Inr (PBool True,
          [wall_A\<lparr>select := True, matrix_world := Rotation (radians 180) Y\<rparr>,
           wall_B\<lparr>select := True\<rparr>],
          wall_snapper\<lparr>snap_cache :=
            [(''A'', [(''source'', Some ''P2''), (''target'', Some ''P1'')]),
             (''B'', [(''target'', Some ''P2'')])]\<rparr>)"
proof -
  have l: "(0::nat) < length [wall_A, second_A]" "(1::nat) < length [wall_A, second_A]"
          "(0::nat) < length [wall_A, wall_B]" "(1::nat) < length [wall_A, wall_B]" by simp_all
  have s: "map_of (props ([wall_A, second_A] ! 0)) ''SnapID'' = Some (PStr ''A'')"
          "map_of (props ([wall_A, second_A] ! 1)) ''SnapID'' = Some (PStr ''A'')"
          "map_of (props ([wall_A, wall_B] ! 0)) ''SnapID'' = Some (PStr ''A'')"
          "map_of (props ([wall_A, wall_B] ! 1)) ''SnapID'' = Some (PStr ''B'')"
    by (simp_all add: wall_fields)
  have n: "\<not> has_key (props ([wall_A, second_A] ! 1)) ''PresetID''"
          "\<not> has_key (props ([wall_A, wall_B] ! 1)) ''PresetID''"
    by (simp_all add: wall_fields has_key_def)
  have first: "snap_objects mirror_env wall_snapper [wall_A, second_A] 0 1 False False True False =
     Inr (PBool True,
          [wall_A\<lparr>select := True, matrix_world := Rotation (radians 180) Y\<rparr>,
           second_A\<lparr>select := True\<rparr>],
          wall_snapper\<lparr>snap_cache :=
            [(''A'', [(''source'', Some ''P1''), (''target'', Some ''P2'')]),
             (''A2'', [(''target'', Some ''P2'')])]\<rparr>)"
    using snap_objects_source_key [where h = mirror_env and sn = wall_snapper
         and sc = "[wall_A, second_A]" and source = 0 and target = 1
         and source_id = "PStr ''A''" and target_id = "PStr ''A''"
         and target_text = "''P1, P2''" and source_text = "''P2, P1''" and other_texts = "[]"
         and tpoints = wall_points and spoints = wall_points
         and next_source = False and prev_source = False and next_target = True
         and prev_target = False,
         OF l(1) l(2) n(1) s(1) s(2) wall_pairings(1) wall_matrices(1) wall_catalogue(2)
            wall_matrices(1) wall_catalogue(2)]
    by (simp add: wall_fields wall_catalogue wall_target_key pairing_options_samples
          modify_Cons select_only_two snap_location_sample update_snap_cache_def Let_def
          del: Rotation.simps)
  have second: "snap_objects mirror_env wall_snapper [wall_A, wall_B] 0 1 False False True False =
     Inr (PBool True,
          [wall_A\<lparr>select := True, matrix_world := Rotation (radians 180) Y\<rparr>,
           wall_B\<lparr>select := True\<rparr>],
          wall_snapper\<lparr>snap_cache :=
            [(''A'', [(''source'', Some ''P2''), (''target'', Some ''P1'')]),
             (''B'', [(''target'', Some ''P2'')])]\<rparr>)"
    using snap_objects_source_key [where h = mirror_env and sn = wall_snapper
         and sc = "[wall_A, wall_B]" and source = 0 and target = 1
         and source_id = "PStr ''A''" and target_id = "PStr ''B''"
         and target_text = "''P1, P2''" and source_text = "''P2, P1''" and other_texts = "[]"
         and tpoints = wall_points and spoints = wall_points
         and next_source = False and prev_source = False and next_target = True
         and prev_target = False,
         OF l(3) l(4) n(2) s(3) s(4) wall_pairings(2) wall_matrices(2) wall_catalogue(2)
            wall_matrices(1) wall_catalogue(2)]
    by (simp add: wall_fields wall_catalogue wall_target_key pairing_options_samples
          modify_Cons select_only_two snap_location_sample update_snap_cache_def Let_def
          del: Rotation.simps)
  show ?thesis
    using first second s(1,2) n(1) wall_pairings(1) wall_matrices(1) wall_catalogue(2,4) wall_target_key(1)
    by simp
qed

end
